theory Spec2Isabelle
  imports
    Main
    "HOL-Library.Word"
    "HOL-Library.Multiset"
    "HOL-Library.Sublist"
    "HOL-Library.Char_ord"
    "HOL-Library.List_Lexorder"
    "HOL-Library.Product_Lexorder"
begin

section \<open>kubectl-ips: the pod records the program reads\<close>

text \<open>
  The program only reads pod records (\<open>corev1.Pod\<close>) that the cluster client hands over.
  The fields below are the ones \<open>pkg/cmd\<close> touches. Go's nil-able pointers
  (\<open>State.Waiting\<close>, \<open>State.Running\<close>, \<open>State.Terminated\<close>,
  \<open>DeletionTimestamp\<close>) are options, \<open>int32\<close> is \<open>32 word\<close>, strings are byte
  lists. A \<open>metav1.Time\<close> is the number of nanoseconds since Go's zero instant, so
  \<open>IsZero\<close> is equality with 0. A label map is the list of its entries in the order the
  \<open>range\<close> loop of the run visits them.
\<close>

type_synonym int32 = "32 word"

record ContainerStateTerminated =
  ExitCode :: int32
  Signal :: int32
  Terminated_Reason :: string

record ContainerStatus =
  State_Waiting :: "string option"    \<comment> \<open>\<open>State.Waiting\<close>, holding \<open>Waiting.Reason\<close>\<close>
  State_Running :: "unit option"      \<comment> \<open>\<open>State.Running\<close>\<close>
  State_Terminated :: "ContainerStateTerminated option"
  Ready :: bool
  RestartCount :: int32

record Pod =
  Name :: string
  Namespace :: string
  CreationTimestamp :: int
  DeletionTimestamp :: "int option"
  Labels :: "(string \<times> string) list"
  Spec_NodeName :: string
  Status_Phase :: string
  Status_Reason :: string
  Status_PodIP :: string
  Status_PodIPs :: "string list"      \<comment> \<open>the \<open>IP\<close> field of each \<open>corev1.PodIP\<close>\<close>
  Status_InitContainerStatuses :: "ContainerStatus list"
  Status_ContainerStatuses :: "ContainerStatus list"

text \<open>A \<open>podIPWithPod\<close> holds a pointer to the pod; pods are never written, so the
  record holds the pod it points to.\<close>

record podIPWithPod =
  pod :: Pod
  ip :: string

section \<open>Decimal formatting (\<open>%d\<close>, \<open>strconv.Itoa\<close>)\<close>

fun itoa_nat :: "nat \<Rightarrow> string" where
  "itoa_nat n =
     (if n < 10 then [char_of (48 + n)]
      else itoa_nat (n div 10) @ [char_of (48 + n mod 10)])"

declare itoa_nat.simps [simp del]

definition Itoa :: "int \<Rightarrow> string" where
  "Itoa i = (if i < 0 then CHR ''-'' # itoa_nat (nat (- i)) else itoa_nat (nat i))"

section \<open>table.go: the extractor\<close>

text \<open>
  \<open>extractPodIPsWithPods\<close> keeps one \<open>uniqueIPs\<close> map for the whole pass; a missing key
  reads as \<open>false\<close>, so the map is a predicate on strings. \<open>extractSecondary\<close> is the inner
  loop over \<open>pod.Status.PodIPs\<close>, \<open>extractPod\<close> one iteration of the outer loop, and
  \<open>extractLoop\<close> the outer loop; each returns the pairs it appends and the updated map.
\<close>

fun extractSecondary ::
    "Pod \<Rightarrow> (string \<Rightarrow> bool) \<Rightarrow> string list \<Rightarrow> podIPWithPod list \<times> (string \<Rightarrow> bool)" where
  "extractSecondary p uniqueIPs [] = ([], uniqueIPs)"
| "extractSecondary p uniqueIPs (a # as) =
     (if a \<noteq> [] \<and> \<not> uniqueIPs a then
        (let (rest, u) = extractSecondary p (uniqueIPs(a := True)) as
         in (\<lparr>pod = p, ip = a\<rparr> # rest, u))
      else extractSecondary p uniqueIPs as)"

definition extractPod ::
    "(string \<Rightarrow> bool) \<Rightarrow> Pod \<Rightarrow> podIPWithPod list \<times> (string \<Rightarrow> bool)" where
  "extractPod uniqueIPs p =
     (if Status_PodIP p \<noteq> [] then
        (let (rest, u) = extractSecondary p (uniqueIPs(Status_PodIP p := True)) (Status_PodIPs p)
         in (\<lparr>pod = p, ip = Status_PodIP p\<rparr> # rest, u))
      else extractSecondary p uniqueIPs (Status_PodIPs p))"

fun extractLoop :: "(string \<Rightarrow> bool) \<Rightarrow> Pod list \<Rightarrow> podIPWithPod list" where
  "extractLoop uniqueIPs [] = []"
| "extractLoop uniqueIPs (p # ps) =
     (let (podIPs, u) = extractPod uniqueIPs p in podIPs @ extractLoop u ps)"

definition extractPodIPsWithPods :: "Pod list \<Rightarrow> podIPWithPod list" where
  "extractPodIPsWithPods items = extractLoop (\<lambda>_. False) items"

section \<open>table.go: the sorter\<close>

text \<open>
  The comparison function handed to \<open>sort.Slice\<close>. Go compares strings byte by byte,
  which is the lexicographic order of \<open>char list\<close>.
\<close>

definition podIPLess :: "podIPWithPod \<Rightarrow> podIPWithPod \<Rightarrow> bool" where
  "podIPLess a b =
     (if Namespace (pod a) \<noteq> Namespace (pod b) then Namespace (pod a) < Namespace (pod b)
      else if Name (pod a) \<noteq> Name (pod b) then Name (pod a) < Name (pod b)
      else ip a < ip b)"

text \<open>The sort key the comparison function orders by.\<close>

definition sortKey :: "podIPWithPod \<Rightarrow> string \<times> string \<times> string" where
  "sortKey a = (Namespace (pod a), Name (pod a), ip a)"

section \<open>Tables, printers' objects and errors\<close>

record TableColumnDefinition =
  col_Name :: string
  col_Type :: string
  col_Priority :: int32

record TableRow =
  Cells :: "string list"
  Object :: Pod

record Table =
  ColumnDefinitions :: "TableColumnDefinition list"
  Rows :: "TableRow list"

text \<open>A \<open>runtime.Object\<close> handed to a printer is a table or a pod list.\<close>

datatype runtime_Object = TableObj Table | PodListObj "Pod list"

text \<open>
  Go errors. \<open>LibError\<close> is an error value returned by a library outside the repository,
  \<open>Wrapped ctx e\<close> is \<open>fmt.Errorf("ctx: %w", e)\<close>, and \<open>NilDereference\<close> is the run-time
  panic of a method call on a nil interface. A Go result of type \<open>error\<close> is an
  \<open>error option\<close> (\<open>None\<close> is \<open>nil\<close>); a result \<open>(T, error)\<close> is \<open>error + T\<close>.
\<close>

datatype error =
    ErrUnsupportedFormat
  | ErrExpectedTable
  | ErrExpectedPodList
  | LibError string
  | Wrapped string error
  | NilDereference

text \<open>The message of an error (its \<open>Error\<close> method).\<close>

fun Error :: "error \<Rightarrow> string" where
  "Error ErrUnsupportedFormat = ''unsupported output format''"
| "Error ErrExpectedTable = ''expected metav1.Table''"
| "Error ErrExpectedPodList = ''expected PodList''"
| "Error (LibError msg) = msg"
| "Error (Wrapped ctx err) = ctx @ '': '' @ Error err"
| "Error NilDereference = ''runtime error: invalid memory address or nil pointer dereference''"

section \<open>The libraries the program calls\<close>

text \<open>
  Code outside the repository is a parameter of the model: the standard library's
  \<open>sort.Slice\<close>, the clock and \<open>duration.HumanDuration\<close>, the cluster client
  (\<open>ToRESTConfig\<close>, \<open>kubernetes.NewForConfig\<close>, \<open>Pods(ns).List\<close>, which gets the
  namespace and the label selector), \<open>labels.Parse\<close> followed by \<open>String\<close>, the \<open>%q\<close>
  verb, the JSON and YAML encoders and the tabular printer of \<open>cli-runtime\<close> (which gets
  \<open>NoHeaders\<close>, the object and the stream written so far, and returns the stream).
\<close>

record collab =
  sort_Slice :: "(podIPWithPod \<Rightarrow> podIPWithPod \<Rightarrow> bool) \<Rightarrow> podIPWithPod list \<Rightarrow> podIPWithPod list"
  time_Since :: "int \<Rightarrow> int"
  HumanDuration :: "int \<Rightarrow> string"
  ToRESTConfig :: "error option"
  NewForConfig :: "error option"
  Pods_List :: "string \<Rightarrow> string \<Rightarrow> error + Pod list"
  labels_Parse :: "string \<Rightarrow> error + string"
  Quote :: "string \<Rightarrow> string"
  json_MarshalIndent :: "runtime_Object \<Rightarrow> error + string"
  yaml_Marshal :: "runtime_Object \<Rightarrow> error + string"
  TablePrinter_PrintObj :: "bool \<Rightarrow> runtime_Object \<Rightarrow> string \<Rightarrow> error option \<times> string"

definition sortPodIPsWithPods :: "collab \<Rightarrow> podIPWithPod list \<Rightarrow> podIPWithPod list" where
  "sortPodIPsWithPods c podIPs = sort_Slice c podIPLess podIPs"

text \<open>
  What the documentation of \<open>sort.Slice\<close> promises: the slice is permuted so that no
  element is less than an element before it. It promises no more: "The sort is not
  guaranteed to be stable: equal elements may be reversed from their original order."
  The promise is needed only for a comparison that is a strict weak order.
\<close>

definition strict_weak :: "('a \<Rightarrow> 'a \<Rightarrow> bool) \<Rightarrow> bool" where
  "strict_weak lt \<longleftrightarrow>
     (\<forall>a b. lt a b \<longrightarrow> \<not> lt b a) \<and>
     (\<forall>a b c. \<not> lt a b \<and> \<not> lt b c \<longrightarrow> \<not> lt a c)"

definition sort_Slice_contract :: "collab \<Rightarrow> bool" where
  "sort_Slice_contract c \<longleftrightarrow>
     (\<forall>lt xs. strict_weak lt \<longrightarrow>
        mset (sort_Slice c lt xs) = mset xs \<and>
        sorted_wrt (\<lambda>a b. \<not> lt b a) (sort_Slice c lt xs))"

text \<open>
  The insertion sort of the library, as a function on lists: \<open>insertLeft\<close> moves the new
  element left over the sorted prefix, held here last element first, while it is less than
  its neighbour.
\<close>

fun insertLeft :: "('a \<Rightarrow> 'a \<Rightarrow> bool) \<Rightarrow> 'a \<Rightarrow> 'a list \<Rightarrow> 'a list" where
  "insertLeft lt x [] = [x]"
| "insertLeft lt x (y # ys) = (if lt x y then y # insertLeft lt x ys else x # y # ys)"

definition insertionSort :: "('a \<Rightarrow> 'a \<Rightarrow> bool) \<Rightarrow> 'a list \<Rightarrow> 'a list" where
  "insertionSort lt xs = rev (foldl (\<lambda>pre x. insertLeft lt x pre) [] xs)"

section \<open>The implementation of \<open>sort.Slice\<close> in the standard library\<close>

text \<open>
  \<open>sort.Slice\<close> is not code of the repository. The functions of this section follow the
  \<open>sort\<close> package of Go 1.19 to 1.24 (the repository asks for Go 1.24): a pattern-defeating
  quicksort that sorts ranges of at most 12 elements by insertion and falls back to
  heapsort. The slice is a list, \<open>Less(i, j)\<close> is \<open>lt (data ! i) (data ! j)\<close> and \<open>Swap\<close>
  exchanges two elements. Every function returns the slice it has written. Indices are
  natural numbers; the library calls these functions with \<open>a \<le> b \<le> len(data)\<close> only, and the
  loops that count \<open>j\<close> down stop at the latest at \<open>j = a\<close>, so no index goes below zero.
  The lemmas between the definitions are the bounds that the termination proofs need.
\<close>

unbundle bit_operations_syntax

definition Swap :: "'a list \<Rightarrow> nat \<Rightarrow> nat \<Rightarrow> 'a list" where
  "Swap data i j = data[i := data ! j, j := data ! i]"

function insertionInner :: "('a \<Rightarrow> 'a \<Rightarrow> bool) \<Rightarrow> 'a list \<Rightarrow> nat \<Rightarrow> nat \<Rightarrow> 'a list" where
  "insertionInner lt data a j =
     (if j > a \<and> lt (data ! j) (data ! (j - 1))
      then insertionInner lt (Swap data j (j - 1)) a (j - 1) else data)"
  by pat_completeness auto
termination
  by (relation "measure (\<lambda>(lt, data, a, j). j)") auto

declare insertionInner.simps [simp del]

function insertionOuter :: "('a \<Rightarrow> 'a \<Rightarrow> bool) \<Rightarrow> 'a list \<Rightarrow> nat \<Rightarrow> nat \<Rightarrow> nat \<Rightarrow> 'a list" where
  "insertionOuter lt data a b i =
     (if i < b then insertionOuter lt (insertionInner lt data a i) a b (i + 1) else data)"
  by pat_completeness auto
termination
  by (relation "measure (\<lambda>(lt, data, a, b, i). b - i)") auto

declare insertionOuter.simps [simp del]

definition insertionSort_func :: "('a \<Rightarrow> 'a \<Rightarrow> bool) \<Rightarrow> 'a list \<Rightarrow> nat \<Rightarrow> nat \<Rightarrow> 'a list" where
  "insertionSort_func lt data a b = insertionOuter lt data a b (a + 1)"

function siftDown_func :: "('a \<Rightarrow> 'a \<Rightarrow> bool) \<Rightarrow> 'a list \<Rightarrow> nat \<Rightarrow> nat \<Rightarrow> nat \<Rightarrow> 'a list" where
  "siftDown_func lt data root hi first =
     (let child = 2 * root + 1 in
      if child \<ge> hi then data
      else
        (let child = (if child + 1 < hi \<and> lt (data ! (first + child)) (data ! (first + child + 1))
                      then child + 1 else child)
         in if \<not> lt (data ! (first + root)) (data ! (first + child)) then data
            else siftDown_func lt (Swap data (first + root) (first + child)) child hi first))"
  by pat_completeness auto
termination
  by (relation "measure (\<lambda>(lt, data, root, hi, first). hi - root)") (auto simp: Let_def)

declare siftDown_func.simps [simp del]

fun heapBuild :: "('a \<Rightarrow> 'a \<Rightarrow> bool) \<Rightarrow> 'a list \<Rightarrow> nat \<Rightarrow> nat \<Rightarrow> nat \<Rightarrow> 'a list" where
  "heapBuild lt data hi first 0 = siftDown_func lt data 0 hi first"
| "heapBuild lt data hi first (Suc i) =
     heapBuild lt (siftDown_func lt data (Suc i) hi first) hi first i"

definition heapSort_func :: "('a \<Rightarrow> 'a \<Rightarrow> bool) \<Rightarrow> 'a list \<Rightarrow> nat \<Rightarrow> nat \<Rightarrow> 'a list" where
  "heapSort_func lt data a b =
     (let first = a; lo = 0; hi = b - a;
          data = heapBuild lt data hi first ((hi - 1) div 2)
      in foldl (\<lambda>data i. siftDown_func lt (Swap data first (first + i)) lo i first)
           data (rev [0..<hi]))"

fun bits_Len :: "nat \<Rightarrow> nat" where
  "bits_Len n = (if n = 0 then 0 else Suc (bits_Len (n div 2)))"

declare bits_Len.simps [simp del]

definition xorshift_Next :: "64 word \<Rightarrow> 64 word" where
  "xorshift_Next r =
     (let r = r XOR push_bit 13 r;
          r = r XOR drop_bit 7 r;
          r = r XOR push_bit 17 r
      in r)"

definition nextPowerOfTwo :: "nat \<Rightarrow> nat" where
  "nextPowerOfTwo len = 2 ^ bits_Len len"

fun breakLoop :: "nat \<Rightarrow> 'a list \<Rightarrow> nat \<Rightarrow> nat \<Rightarrow> nat \<Rightarrow> nat \<Rightarrow> 64 word \<Rightarrow> nat \<Rightarrow> 'a list" where
  "breakLoop 0 data a len modulus idx random i = data"
| "breakLoop (Suc n) data a len modulus idx random i =
     (let random = xorshift_Next random;
          other = unat (random AND (word_of_nat modulus - 1));
          other = (if other \<ge> len then other - len else other)
      in breakLoop n (Swap data (idx - 1 + i) (a + other)) a len modulus idx random (i + 1))"

definition breakPatterns_func :: "'a list \<Rightarrow> nat \<Rightarrow> nat \<Rightarrow> 'a list" where
  "breakPatterns_func data a b =
     (let len = b - a in
      if len \<ge> 8 then
        breakLoop 3 data a len (nextPowerOfTwo len) (a + (len div 4) * 2 - 1) (word_of_nat len) 0
      else data)"

datatype sortedHint = unknownHint | increasingHint | decreasingHint

definition order2_func :: "('a \<Rightarrow> 'a \<Rightarrow> bool) \<Rightarrow> 'a list \<Rightarrow> nat \<Rightarrow> nat \<Rightarrow> nat \<Rightarrow> nat \<times> nat \<times> nat" where
  "order2_func lt data a b swaps =
     (if lt (data ! b) (data ! a) then (b, a, swaps + 1) else (a, b, swaps))"

definition median_func :: "('a \<Rightarrow> 'a \<Rightarrow> bool) \<Rightarrow> 'a list \<Rightarrow> nat \<Rightarrow> nat \<Rightarrow> nat \<Rightarrow> nat \<Rightarrow> nat \<times> nat" where
  "median_func lt data a b c swaps =
     (let (a, b, swaps) = order2_func lt data a b swaps;
          (b, c, swaps) = order2_func lt data b c swaps;
          (a, b, swaps) = order2_func lt data a b swaps
      in (b, swaps))"

definition medianAdjacent_func :: "('a \<Rightarrow> 'a \<Rightarrow> bool) \<Rightarrow> 'a list \<Rightarrow> nat \<Rightarrow> nat \<Rightarrow> nat \<times> nat" where
  "medianAdjacent_func lt data a swaps = median_func lt data (a - 1) a (a + 1) swaps"

definition choosePivot_func :: "('a \<Rightarrow> 'a \<Rightarrow> bool) \<Rightarrow> 'a list \<Rightarrow> nat \<Rightarrow> nat \<Rightarrow> nat \<times> sortedHint" where
  "choosePivot_func lt data a b =
     (let l = b - a;
          swaps = 0;
          i = a + l div 4 * 1;
          j = a + l div 4 * 2;
          k = a + l div 4 * 3;
          (j, swaps) =
            (if l \<ge> 8 then
               (let (i, j, k, swaps) =
                      (if l \<ge> 50 then
                         (let (i, swaps) = medianAdjacent_func lt data i swaps;
                              (j, swaps) = medianAdjacent_func lt data j swaps;
                              (k, swaps) = medianAdjacent_func lt data k swaps
                          in (i, j, k, swaps))
                       else (i, j, k, swaps))
                in median_func lt data i j k swaps)
             else (j, swaps))
      in if swaps = 0 then (j, increasingHint)
         else if swaps = 12 then (j, decreasingHint)
         else (j, unknownHint))"

function reverseLoop :: "'a list \<Rightarrow> nat \<Rightarrow> nat \<Rightarrow> 'a list" where
  "reverseLoop data i j = (if i < j then reverseLoop (Swap data i j) (i + 1) (j - 1) else data)"
  by pat_completeness auto
termination
  by (relation "measure (\<lambda>(data, i, j). j - i)") auto

declare reverseLoop.simps [simp del]

definition reverseRange_func :: "'a list \<Rightarrow> nat \<Rightarrow> nat \<Rightarrow> 'a list" where
  "reverseRange_func data a b = reverseLoop data a (b - 1)"

function scanSorted :: "('a \<Rightarrow> 'a \<Rightarrow> bool) \<Rightarrow> 'a list \<Rightarrow> nat \<Rightarrow> nat \<Rightarrow> nat" where
  "scanSorted lt data b i =
     (if i < b \<and> \<not> lt (data ! i) (data ! (i - 1)) then scanSorted lt data b (i + 1) else i)"
  by pat_completeness auto
termination
  by (relation "measure (\<lambda>(lt, data, b, i). b - i)") auto

declare scanSorted.simps [simp del]

fun shiftLeft :: "('a \<Rightarrow> 'a \<Rightarrow> bool) \<Rightarrow> 'a list \<Rightarrow> nat \<Rightarrow> 'a list" where
  "shiftLeft lt data 0 = data"
| "shiftLeft lt data (Suc j) =
     (if \<not> lt (data ! Suc j) (data ! j) then data
      else shiftLeft lt (Swap data (Suc j) j) j)"

function shiftRight :: "('a \<Rightarrow> 'a \<Rightarrow> bool) \<Rightarrow> 'a list \<Rightarrow> nat \<Rightarrow> nat \<Rightarrow> 'a list" where
  "shiftRight lt data b j =
     (if j < b then
        (if \<not> lt (data ! j) (data ! (j - 1)) then data
         else shiftRight lt (Swap data j (j - 1)) b (j + 1))
      else data)"
  by pat_completeness auto
termination
  by (relation "measure (\<lambda>(lt, data, b, j). b - j)") auto

declare shiftRight.simps [simp del]

primrec partialSteps :: "nat \<Rightarrow> ('a \<Rightarrow> 'a \<Rightarrow> bool) \<Rightarrow> 'a list \<Rightarrow> nat \<Rightarrow> nat \<Rightarrow> nat \<Rightarrow> 'a list \<times> bool" where
  "partialSteps 0 lt data a b i = (data, False)"
| "partialSteps (Suc n) lt data a b i =
     (let i = scanSorted lt data b i in
      if i = b then (data, True)
      else if b - a < 50 then (data, False)
      else
        (let data = Swap data i (i - 1);
             data = (if i - a \<ge> 2 then shiftLeft lt data (i - 1) else data);
             data = (if b - i \<ge> 2 then shiftRight lt data b (i + 1) else data)
         in partialSteps n lt data a b i))"

definition partialInsertionSort_func :: "('a \<Rightarrow> 'a \<Rightarrow> bool) \<Rightarrow> 'a list \<Rightarrow> nat \<Rightarrow> nat \<Rightarrow> 'a list \<times> bool" where
  "partialInsertionSort_func lt data a b = partialSteps 5 lt data a b (a + 1)"


function partLeft :: "('a \<Rightarrow> 'a \<Rightarrow> bool) \<Rightarrow> 'a list \<Rightarrow> nat \<Rightarrow> nat \<Rightarrow> nat \<Rightarrow> nat" where
  "partLeft lt data a i j =
     (if i \<le> j \<and> lt (data ! i) (data ! a) then partLeft lt data a (i + 1) j else i)"
  by pat_completeness auto
termination
  by (relation "measure (\<lambda>(lt, data, a, i, j). Suc j - i)") auto

fun partRight :: "('a \<Rightarrow> 'a \<Rightarrow> bool) \<Rightarrow> 'a list \<Rightarrow> nat \<Rightarrow> nat \<Rightarrow> nat \<Rightarrow> nat" where
  "partRight lt data a i 0 = 0"
| "partRight lt data a i (Suc j) =
     (if i \<le> Suc j \<and> \<not> lt (data ! Suc j) (data ! a) then partRight lt data a i j else Suc j)"

declare partLeft.simps [simp del]

lemma partLeft_ge: "i \<le> partLeft lt data a i j"
proof (induction lt data a i j rule: partLeft.induct)
  case (1 lt data a i j)
  show ?case
  proof (cases "i \<le> j \<and> lt (data ! i) (data ! a)")
    case True
    with 1 have "i + 1 \<le> partLeft lt data a (i + 1) j" by simp
    with True show ?thesis by (subst partLeft.simps) simp
  next
    case False
    then show ?thesis by (subst partLeft.simps) auto
  qed
qed

lemma partRight_le: "partRight lt data a i j \<le> j"
  by (induction j) auto

function partLoop :: "('a \<Rightarrow> 'a \<Rightarrow> bool) \<Rightarrow> 'a list \<Rightarrow> nat \<Rightarrow> nat \<Rightarrow> nat \<Rightarrow> 'a list \<times> nat \<times> bool" where
  "partLoop lt data a i j =
     (let i = partLeft lt data a i j;
          j = partRight lt data a i j
      in if i > j then (Swap data j a, j, False)
         else partLoop lt (Swap data i j) a (i + 1) (j - 1))"
  by pat_completeness auto
termination
proof (relation "measure (\<lambda>(lt, data, a, i, j). Suc j - i)", goal_cases)
  case 1
  then show ?case by simp
next
  case (2 lt data a i j i' j')
  have "i \<le> i'" using 2(1) by (simp add: partLeft_ge)
  moreover have "j' \<le> j" using 2(2) by (simp add: partRight_le)
  ultimately show ?case using 2(3) by simp
qed

declare partLoop.simps [simp del]

definition partition_func ::
    "('a \<Rightarrow> 'a \<Rightarrow> bool) \<Rightarrow> 'a list \<Rightarrow> nat \<Rightarrow> nat \<Rightarrow> nat \<Rightarrow> 'a list \<times> nat \<times> bool" where
  "partition_func lt data a b pivot =
     (let data = Swap data a pivot;
          i = partLeft lt data a (a + 1) (b - 1);
          j = partRight lt data a i (b - 1)
      in if i > j then (Swap data j a, j, True)
         else partLoop lt (Swap data i j) a (i + 1) (j - 1))"

function eqLeft :: "('a \<Rightarrow> 'a \<Rightarrow> bool) \<Rightarrow> 'a list \<Rightarrow> nat \<Rightarrow> nat \<Rightarrow> nat \<Rightarrow> nat" where
  "eqLeft lt data a i j =
     (if i \<le> j \<and> \<not> lt (data ! a) (data ! i) then eqLeft lt data a (i + 1) j else i)"
  by pat_completeness auto
termination
  by (relation "measure (\<lambda>(lt, data, a, i, j). Suc j - i)") auto

fun eqRight :: "('a \<Rightarrow> 'a \<Rightarrow> bool) \<Rightarrow> 'a list \<Rightarrow> nat \<Rightarrow> nat \<Rightarrow> nat \<Rightarrow> nat" where
  "eqRight lt data a i 0 = 0"
| "eqRight lt data a i (Suc j) =
     (if i \<le> Suc j \<and> lt (data ! a) (data ! Suc j) then eqRight lt data a i j else Suc j)"

declare eqLeft.simps [simp del]

lemma eqLeft_ge: "i \<le> eqLeft lt data a i j"
proof (induction lt data a i j rule: eqLeft.induct)
  case (1 lt data a i j)
  show ?case
  proof (cases "i \<le> j \<and> \<not> lt (data ! a) (data ! i)")
    case True
    with 1 have "i + 1 \<le> eqLeft lt data a (i + 1) j" by simp
    with True show ?thesis by (subst eqLeft.simps) simp
  next
    case False
    then show ?thesis by (subst eqLeft.simps) auto
  qed
qed

lemma eqRight_le: "eqRight lt data a i j \<le> j"
  by (induction j) auto

function eqLoop :: "('a \<Rightarrow> 'a \<Rightarrow> bool) \<Rightarrow> 'a list \<Rightarrow> nat \<Rightarrow> nat \<Rightarrow> nat \<Rightarrow> 'a list \<times> nat" where
  "eqLoop lt data a i j =
     (let i = eqLeft lt data a i j;
          j = eqRight lt data a i j
      in if i > j then (data, i)
         else eqLoop lt (Swap data i j) a (i + 1) (j - 1))"
  by pat_completeness auto
termination
proof (relation "measure (\<lambda>(lt, data, a, i, j). Suc j - i)", goal_cases)
  case 1
  then show ?case by simp
next
  case (2 lt data a i j i' j')
  have "i \<le> i'" using 2(1) by (simp add: eqLeft_ge)
  moreover have "j' \<le> j" using 2(2) by (simp add: eqRight_le)
  ultimately show ?case using 2(3) by simp
qed

declare eqLoop.simps [simp del]

definition partitionEqual_func ::
    "('a \<Rightarrow> 'a \<Rightarrow> bool) \<Rightarrow> 'a list \<Rightarrow> nat \<Rightarrow> nat \<Rightarrow> nat \<Rightarrow> 'a list \<times> nat" where
  "partitionEqual_func lt data a b pivot =
     (let data = Swap data a pivot in eqLoop lt data a (a + 1) (b - 1))"


lemma partLeft_le: "i \<le> Suc j \<Longrightarrow> partLeft lt data a i j \<le> Suc j"
proof (induction lt data a i j rule: partLeft.induct)
  case (1 lt data a i j)
  show ?case
  proof (cases "i \<le> j \<and> lt (data ! i) (data ! a)")
    case True
    with 1 have "partLeft lt data a (i + 1) j \<le> Suc j" by simp
    with True show ?thesis by (subst partLeft.simps) simp
  next
    case False
    with 1(2) show ?thesis by (subst partLeft.simps) auto
  qed
qed

lemma partRight_ge: "partRight lt data a i j = j \<or> i \<le> Suc (partRight lt data a i j)"
  by (induction j) auto

lemma partLoop_bounds:
  "a < i \<Longrightarrow> a \<le> j \<Longrightarrow> partLoop lt data a i j = (d, mid, al) \<Longrightarrow> a \<le> mid \<and> mid \<le> j"
proof (induction lt data a i j arbitrary: d mid al rule: partLoop.induct)
  case (1 lt data a i j)
  let ?i = "partLeft lt data a i j"
  let ?j = "partRight lt data a ?i j"
  have i: "a < ?i" using partLeft_ge [of i lt data a j] 1(2) by simp
  have ju: "?j \<le> j" by (rule partRight_le)
  have jl: "a \<le> ?j" using partRight_ge [of lt data a ?i j] i 1(3) by auto
  show ?case
  proof (cases "?i > ?j")
    case True
    with 1(4) have "mid = ?j" by (subst (asm) partLoop.simps) (simp add: Let_def)
    with ju jl show ?thesis by simp
  next
    case False
    with 1(4) have r: "partLoop lt (Swap data ?i ?j) a (?i + 1) (?j - 1) = (d, mid, al)"
      by (subst (asm) partLoop.simps) (simp add: Let_def)
    have "a \<le> mid \<and> mid \<le> ?j - 1"
      using False i by (intro "1.IH" [OF refl refl _ _ _ r]) auto
    with ju show ?thesis by arith
  qed
qed

lemma partition_func_bounds:
  assumes "a < b" "partition_func lt data a b pivot = (d, mid, al)"
  shows "a \<le> mid \<and> mid < b"
proof -
  let ?d = "Swap data a pivot"
  let ?i = "partLeft lt ?d a (a + 1) (b - 1)"
  let ?j = "partRight lt ?d a ?i (b - 1)"
  have i: "a < ?i" using partLeft_ge [of "a + 1" lt ?d a "b - 1"] by simp
  have ju: "?j \<le> b - 1" by (rule partRight_le)
  have jl: "a \<le> ?j" using partRight_ge [of lt ?d a ?i "b - 1"] i assms(1) by auto
  show ?thesis
  proof (cases "?i > ?j")
    case True
    with assms(2) have "mid = ?j" by (simp add: partition_func_def Let_def)
    with ju jl assms(1) show ?thesis by simp
  next
    case False
    with assms(2) have r: "partLoop lt (Swap ?d ?i ?j) a (?i + 1) (?j - 1) = (d, mid, al)"
      by (simp add: partition_func_def Let_def)
    have "a \<le> mid \<and> mid \<le> ?j - 1"
      using False i by (intro partLoop_bounds [OF _ _ r]) auto
    with ju assms(1) show ?thesis by arith
  qed
qed

lemma eqLoop_ge: "eqLoop lt data a i j = (d, mid) \<Longrightarrow> i \<le> mid"
proof (induction lt data a i j arbitrary: d mid rule: eqLoop.induct)
  case (1 lt data a i j)
  let ?i = "eqLeft lt data a i j"
  let ?j = "eqRight lt data a ?i j"
  have i: "i \<le> ?i" by (rule eqLeft_ge)
  show ?case
  proof (cases "?i > ?j")
    case True
    with 1(2) have "mid = ?i" by (subst (asm) eqLoop.simps) (auto simp: Let_def)
    with i show ?thesis by simp
  next
    case False
    with 1(2) have r: "eqLoop lt (Swap data ?i ?j) a (?i + 1) (?j - 1) = (d, mid)"
      by (subst (asm) eqLoop.simps) (simp add: Let_def)
    have "?i + 1 \<le> mid" using False by (intro "1.IH" [OF refl refl _ r]) auto
    with i show ?thesis by simp
  qed
qed

lemma partitionEqual_func_gt: "partitionEqual_func lt data a b pivot = (d, mid) \<Longrightarrow> a < mid"
  using eqLoop_ge [of lt "Swap data a pivot" a "a + 1" "b - 1" d mid]
  by (simp add: partitionEqual_func_def)

datatype 'a pdqStep =
    Sorted "'a list"
  | EqualLeft "'a list" nat nat
  | Partitioned "'a list" nat nat bool

definition pdq_step ::
    "('a \<Rightarrow> 'a \<Rightarrow> bool) \<Rightarrow> 'a list \<Rightarrow> nat \<Rightarrow> nat \<Rightarrow> nat \<Rightarrow> bool \<Rightarrow> bool \<Rightarrow> 'a pdqStep" where
  "pdq_step lt data a b limit wasBalanced wasPartitioned =
     (let (data, limit) =
            (if \<not> wasBalanced then (breakPatterns_func data a b, limit - 1) else (data, limit));
          (pivot, hint) = choosePivot_func lt data a b;
          (data, pivot, hint) =
            (if hint = decreasingHint
             then (reverseRange_func data a b, (b - 1) - (pivot - a), increasingHint)
             else (data, pivot, hint));
          (data, done) =
            (if wasBalanced \<and> wasPartitioned \<and> hint = increasingHint
             then partialInsertionSort_func lt data a b else (data, False))
      in if done then Sorted data
         else if a > 0 \<and> \<not> lt (data ! (a - 1)) (data ! pivot) then
           (let (data, mid) = partitionEqual_func lt data a b pivot in EqualLeft data mid limit)
         else
           (let (data, mid, alreadyPartitioned) = partition_func lt data a b pivot
            in Partitioned data mid limit alreadyPartitioned))"

lemma pdq_step_EqualLeft:
  "pdq_step lt data a b limit wb wp = EqualLeft d mid l \<Longrightarrow> a < mid"
  by (auto simp: pdq_step_def Let_def split: prod.splits if_splits dest: partitionEqual_func_gt)

lemma pdq_step_Partitioned:
  "a < b \<Longrightarrow> pdq_step lt data a b limit wb wp = Partitioned d mid l al \<Longrightarrow> a \<le> mid \<and> mid < b"
  by (auto simp: pdq_step_def Let_def split: prod.splits if_splits dest: partition_func_bounds)

function pdqsort_func ::
    "('a \<Rightarrow> 'a \<Rightarrow> bool) \<Rightarrow> 'a list \<Rightarrow> nat \<Rightarrow> nat \<Rightarrow> nat \<Rightarrow> bool \<Rightarrow> bool \<Rightarrow> 'a list" where
  "pdqsort_func lt data a b limit wasBalanced wasPartitioned =
     (let len = b - a in
      if len \<le> 12 then insertionSort_func lt data a b
      else if limit = 0 then heapSort_func lt data a b
      else
        (case pdq_step lt data a b limit wasBalanced wasPartitioned of
           Sorted data \<Rightarrow> data
         | EqualLeft data mid limit \<Rightarrow>
             pdqsort_func lt data mid b limit wasBalanced wasPartitioned
         | Partitioned data mid limit alreadyPartitioned \<Rightarrow>
             (let leftLen = mid - a; rightLen = b - mid; balanceThreshold = len div 8 in
              if leftLen < rightLen then
                pdqsort_func lt (pdqsort_func lt data a mid limit True True) (mid + 1) b limit
                  (leftLen \<ge> balanceThreshold) alreadyPartitioned
              else
                pdqsort_func lt (pdqsort_func lt data (mid + 1) b limit True True) a mid limit
                  (rightLen \<ge> balanceThreshold) alreadyPartitioned)))"
  by pat_completeness auto
termination
proof (relation "measure (\<lambda>(lt, data, a, b, limit, wb, wp). b - a)", goal_cases)
  case 1
  then show ?case by simp
next
  case (2 lt data a b limit wb wp len d mid l)
  then show ?case using pdq_step_EqualLeft [of lt data a b limit wb wp d mid l] by simp
next
  case (3 lt data a b limit wb wp len d mid l al)
  then have "a < b" by simp
  from pdq_step_Partitioned [OF this, of lt data limit wb wp d mid l al] 3
  show ?case by (auto; arith)
next
  case (4 lt data a b limit wb wp len d mid l al)
  then have "a < b" by simp
  from pdq_step_Partitioned [OF this, of lt data limit wb wp d mid l al] 4
  show ?case by (auto; arith)
next
  case (5 lt data a b limit wb wp len d mid l al)
  then have "a < b" by simp
  from pdq_step_Partitioned [OF this, of lt data limit wb wp d mid l al] 5
  show ?case by (auto; arith)
next
  case (6 lt data a b limit wb wp len d mid l al)
  then have "a < b" by simp
  from pdq_step_Partitioned [OF this, of lt data limit wb wp d mid l al] 6
  show ?case by (auto; arith)
qed

declare pdqsort_func.simps [simp del]

definition go_sort_Slice :: "('a \<Rightarrow> 'a \<Rightarrow> bool) \<Rightarrow> 'a list \<Rightarrow> 'a list" where
  "go_sort_Slice lt x = pdqsort_func lt x 0 (length x) (bits_Len (length x)) True True"

text \<open>
  Two facts about the implementation that go beyond the documented promise: a slice of at
  most 12 elements is sorted by insertion, and a sorted slice is left as it is.
\<close>

definition sort_Slice_as_implemented :: "collab \<Rightarrow> bool" where
  "sort_Slice_as_implemented c \<longleftrightarrow>
     (\<forall>lt xs. length xs \<le> 12 \<longrightarrow> sort_Slice c lt xs = insertionSort lt xs) \<and>
     (\<forall>lt xs. sorted_wrt (\<lambda>a b. \<not> lt b a) xs \<longrightarrow> sort_Slice c lt xs = xs)"

section \<open>The field formatters\<close>

definition noneValue :: string where
  "noneValue = ''<none>''"

definition unknownValue :: string where
  "unknownValue = ''<unknown>''"

definition FormatPodAge :: "collab \<Rightarrow> Pod \<Rightarrow> string" where
  "FormatPodAge c p =
     (if CreationTimestamp p = 0 then unknownValue
      else HumanDuration c (time_Since c (CreationTimestamp p)))"

definition formatInitTerminatedReason :: "ContainerStateTerminated \<Rightarrow> string" where
  "formatInitTerminatedReason t =
     (if Terminated_Reason t = [] then
        (if Signal t \<noteq> 0 then ''Init:Signal:'' @ Itoa (sint (Signal t))
         else ''Init:ExitCode:'' @ Itoa (sint (ExitCode t)))
      else ''Init:'' @ Terminated_Reason t)"

text \<open>The loop of \<open>checkInitContainers\<close> from index \<open>i\<close> on; \<open>n\<close> is the number of init
  containers.\<close>

fun checkInitContainersFrom :: "nat \<Rightarrow> nat \<Rightarrow> ContainerStatus list \<Rightarrow> string \<times> bool" where
  "checkInitContainersFrom i n [] = ([], False)"
| "checkInitContainersFrom i n (container # rest) =
     (case State_Terminated container of
        Some t \<Rightarrow>
          (if ExitCode t = 0 then checkInitContainersFrom (Suc i) n rest
           else (formatInitTerminatedReason t, True))
      | None \<Rightarrow>
          (case State_Waiting container of
             Some r \<Rightarrow>
               (if r \<noteq> [] \<and> r \<noteq> ''PodInitializing'' then (''Init:'' @ r, True)
                else (''Init:'' @ itoa_nat i @ ''/'' @ itoa_nat n, True))
           | None \<Rightarrow> (''Init:'' @ itoa_nat i @ ''/'' @ itoa_nat n, True)))"

definition checkInitContainers :: "Pod \<Rightarrow> string \<times> bool" where
  "checkInitContainers p =
     checkInitContainersFrom 0 (length (Status_InitContainerStatuses p))
       (Status_InitContainerStatuses p)"

definition formatTerminatedReason :: "ContainerStateTerminated \<Rightarrow> string" where
  "formatTerminatedReason t =
     (if Signal t \<noteq> 0 then ''Signal:'' @ Itoa (sint (Signal t))
      else ''ExitCode:'' @ Itoa (sint (ExitCode t)))"

definition getContainerReason :: "ContainerStatus \<Rightarrow> string" where
  "getContainerReason container =
     (case State_Waiting container of
        Some r \<Rightarrow> if r \<noteq> [] then r
          else (case State_Terminated container of
                  Some t \<Rightarrow> if Terminated_Reason t \<noteq> [] then Terminated_Reason t
                            else formatTerminatedReason t
                | None \<Rightarrow> [])
      | None \<Rightarrow>
          (case State_Terminated container of
             Some t \<Rightarrow> if Terminated_Reason t \<noteq> [] then Terminated_Reason t
                       else formatTerminatedReason t
           | None \<Rightarrow> []))"

text \<open>One iteration of the loop of \<open>checkMainContainers\<close>; the loop runs from the last
  container status to the first.\<close>

definition checkMainStep :: "string \<times> bool \<Rightarrow> ContainerStatus \<Rightarrow> string \<times> bool" where
  "checkMainStep st container =
     (let newReason = getContainerReason container;
          reason = (if newReason \<noteq> [] then newReason else fst st);
          hasRunning = (if Ready container \<and> State_Running container \<noteq> None then True else snd st)
      in (reason, hasRunning))"

definition checkMainContainers :: "Pod \<Rightarrow> string \<Rightarrow> string" where
  "checkMainContainers p currentReason =
     (let (reason, hasRunning) =
            foldl checkMainStep (currentReason, False) (rev (Status_ContainerStatuses p))
      in if reason = ''Completed'' \<and> hasRunning then ''Running'' else reason)"

definition handlePodDeletion :: "Pod \<Rightarrow> string \<Rightarrow> string" where
  "handlePodDeletion p reason =
     (if DeletionTimestamp p \<noteq> None then
        (if Status_Reason p = ''NodeLost'' then ''Unknown'' else ''Terminating'')
      else reason)"

definition FormatPodStatus :: "Pod \<Rightarrow> string" where
  "FormatPodStatus p =
     (let reason = Status_Phase p;
          reason = (if Status_Reason p \<noteq> [] then Status_Reason p else reason);
          (initReason, initializing) = checkInitContainers p;
          reason = (if initializing then initReason else checkMainContainers p reason)
      in handlePodDeletion p reason)"

definition FormatPodReady :: "Pod \<Rightarrow> string" where
  "FormatPodReady p =
     (let readyContainers =
            foldl (\<lambda>n container. if Ready container then n + 1 else n) (0::nat)
              (Status_ContainerStatuses p);
          totalContainers = length (Status_ContainerStatuses p)
      in itoa_nat readyContainers @ ''/'' @ itoa_nat totalContainers)"

definition FormatRestarts :: "Pod \<Rightarrow> string" where
  "FormatRestarts p =
     (let restarts =
            foldl (\<lambda>r container. r + RestartCount container) (0::int32)
              (Status_ContainerStatuses p)
      in Itoa (sint restarts))"

fun Join :: "string list \<Rightarrow> string \<Rightarrow> string" where
  "Join [] sep = []"
| "Join [s] sep = s"
| "Join (s # t # ss) sep = s @ sep @ Join (t # ss) sep"

definition FormatLabels :: "(string \<times> string) list \<Rightarrow> string" where
  "FormatLabels labels =
     (if length labels = 0 then noneValue
      else Join (map (\<lambda>(key, val). key @ ''='' @ val) labels) '','')"

definition GetNodeName :: "Pod \<Rightarrow> string" where
  "GetNodeName p = (if Spec_NodeName p \<noteq> [] then Spec_NodeName p else noneValue)"

section \<open>The table builder\<close>

definition makeTableRow :: "collab \<Rightarrow> Pod \<Rightarrow> string \<Rightarrow> bool \<Rightarrow> bool \<Rightarrow> bool \<Rightarrow> string list" where
  "makeTableRow c p ipaddr showNamespace wide showLabels =
     (let row = [];
          row = (if showNamespace then row @ [Namespace p] else row);
          row = row @ [Name p, ipaddr, FormatPodStatus p];
          row = (if wide then row @ [FormatPodReady p, FormatRestarts p, GetNodeName p] else row);
          row = row @ [FormatPodAge c p];
          row = (if showLabels then row @ [FormatLabels (Labels p)] else row)
      in row)"

definition makeTableHeaders :: "bool \<Rightarrow> bool \<Rightarrow> bool \<Rightarrow> TableColumnDefinition list" where
  "makeTableHeaders showNamespace wide showLabels =
     (let columns = [];
          columns = (if showNamespace then
             columns @ [\<lparr>col_Name = ''NAMESPACE'', col_Type = ''string'', col_Priority = 0\<rparr>]
             else columns);
          columns = columns @
            [\<lparr>col_Name = ''NAME'', col_Type = ''string'', col_Priority = 0\<rparr>,
             \<lparr>col_Name = ''IP'', col_Type = ''string'', col_Priority = 0\<rparr>,
             \<lparr>col_Name = ''STATUS'', col_Type = ''string'', col_Priority = 0\<rparr>];
          columns = (if wide then columns @
            [\<lparr>col_Name = ''READY'', col_Type = ''string'', col_Priority = 1\<rparr>,
             \<lparr>col_Name = ''RESTARTS'', col_Type = ''string'', col_Priority = 1\<rparr>,
             \<lparr>col_Name = ''NODE'', col_Type = ''string'', col_Priority = 1\<rparr>]
             else columns);
          columns = columns @ [\<lparr>col_Name = ''AGE'', col_Type = ''string'', col_Priority = 0\<rparr>];
          columns = (if showLabels then
             columns @ [\<lparr>col_Name = ''LABELS'', col_Type = ''string'', col_Priority = 1\<rparr>]
             else columns)
      in columns)"

definition generateTable :: "collab \<Rightarrow> Pod list \<Rightarrow> bool \<Rightarrow> bool \<Rightarrow> bool \<Rightarrow> Table" where
  "generateTable c pods showNamespace wide showLabels =
     (let podIPList = sortPodIPsWithPods c (extractPodIPsWithPods pods)
      in \<lparr>ColumnDefinitions = makeTableHeaders showNamespace wide showLabels,
          Rows = map (\<lambda>item.
                   \<lparr>Cells = makeTableRow c (pod item) (ip item) showNamespace wide showLabels,
                    Object = pod item\<rparr>) podIPList\<rparr>)"

section \<open>The output renderers\<close>

text \<open>
  The output stream is the text written so far. \<open>Fprint\<close> appends to it; the stream of
  the model accepts every write, as the in-memory buffers of the tests do, so the result
  for the write error is always \<open>None\<close>.
\<close>

definition Fprint :: "string \<Rightarrow> string \<Rightarrow> error option \<times> string" where
  "Fprint out s = (None, out @ s)"

datatype ResourcePrinter =
    jsonPrinter
  | yamlPrinter
  | namePrinter bool
  | TablePrinter bool
  | ipOnlyPrinter

definition jsonFormat :: string where "jsonFormat = ''json''"
definition yamlFormat :: string where "yamlFormat = ''yaml''"
definition nameFormat :: string where "nameFormat = ''name''"
definition tableFormat :: string where "tableFormat = ''table''"
definition wideFormat :: string where "wideFormat = ''wide''"

definition createPrinter :: "string \<Rightarrow> bool \<Rightarrow> bool \<Rightarrow> error + ResourcePrinter" where
  "createPrinter outputFormat noHeaders showNamespace =
     (if outputFormat = jsonFormat then Inr jsonPrinter
      else if outputFormat = yamlFormat then Inr yamlPrinter
      else if outputFormat = nameFormat then Inr (namePrinter showNamespace)
      else if outputFormat = tableFormat \<or> outputFormat = wideFormat \<or> outputFormat = []
        then Inr (TablePrinter noHeaders)
      else Inl ErrUnsupportedFormat)"

text \<open>The loop of \<open>namePrinter.PrintObj\<close> over the rows.\<close>

fun namePrintRows :: "bool \<Rightarrow> TableRow list \<Rightarrow> string \<Rightarrow> string" where
  "namePrintRows showNamespace [] out = out"
| "namePrintRows showNamespace (row # rows) out =
     (if length (Cells row) < 2 then namePrintRows showNamespace rows out
      else if showNamespace \<and> length (Cells row) > 0 then
        namePrintRows showNamespace rows
          (snd (Fprint out (Cells row ! 0 @ ''/'' @ Cells row ! 1 @ ''\<newline>'')))
      else if length (Cells row) > 0 then
        namePrintRows showNamespace rows (snd (Fprint out (Cells row ! 0 @ ''\<newline>'')))
      else namePrintRows showNamespace rows out)"

text \<open>The loop of \<open>ipOnlyPrinter.PrintObj\<close> over the sorted pairs.\<close>

fun ipPrintItems :: "podIPWithPod list \<Rightarrow> string \<Rightarrow> string" where
  "ipPrintItems [] out = out"
| "ipPrintItems (item # items) out = ipPrintItems items (snd (Fprint out (ip item @ ''\<newline>'')))"

fun PrintObj :: "collab \<Rightarrow> ResourcePrinter \<Rightarrow> runtime_Object \<Rightarrow> string \<Rightarrow> error option \<times> string" where
  "PrintObj c jsonPrinter obj out =
     (case json_MarshalIndent c obj of
        Inl err \<Rightarrow> (Some (Wrapped ''failed to marshal JSON'' err), out)
      | Inr data \<Rightarrow>
          (case Fprint out (data @ ''\<newline>'') of
             (Some err, out') \<Rightarrow> (Some (Wrapped ''failed to write JSON'' err), out')
           | (None, out') \<Rightarrow> (None, out')))"
| "PrintObj c yamlPrinter obj out =
     (case yaml_Marshal c obj of
        Inl err \<Rightarrow> (Some (Wrapped ''failed to marshal YAML'' err), out)
      | Inr data \<Rightarrow>
          (case Fprint out data of
             (Some err, out') \<Rightarrow> (Some (Wrapped ''failed to write YAML'' err), out')
           | (None, out') \<Rightarrow> (None, out')))"
| "PrintObj c (namePrinter showNamespace) obj out =
     (case obj of
        TableObj table \<Rightarrow> (None, namePrintRows showNamespace (Rows table) out)
      | PodListObj _ \<Rightarrow> (Some ErrExpectedTable, out))"
| "PrintObj c (TablePrinter noHeaders) obj out = TablePrinter_PrintObj c noHeaders obj out"
| "PrintObj c ipOnlyPrinter obj out =
     (case obj of
        PodListObj pods \<Rightarrow>
          (None, ipPrintItems (sortPodIPsWithPods c (extractPodIPsWithPods pods)) out)
      | TableObj _ \<Rightarrow> (Some ErrExpectedPodList, out))"

section \<open>Options, validation and the run\<close>

record IPsOptions =
  configFlags_Namespace :: "string option"
  allNamespaces :: bool
  labelSelector :: string
  showIPsOnly :: bool
  namespace :: string
  outputFormat :: string
  noHeaders :: bool
  showLabels :: bool

text \<open>
  The options of a command line without flags: \<open>NewIPsOptions\<close> and the defaults that
  \<open>NewCmdIPs\<close> registers (\<open>--output\<close> is \<open>table\<close>); \<open>NewConfigFlags(true)\<close> points
  \<open>Namespace\<close> to an empty string.
\<close>

definition NewIPsOptions :: IPsOptions where
  "NewIPsOptions =
     \<lparr>configFlags_Namespace = Some [], allNamespaces = False, labelSelector = [],
      showIPsOnly = False, namespace = [], outputFormat = ''table'', noHeaders = False,
      showLabels = False\<rparr>"

text \<open>
  What the run does to the outside: the text written to \<open>o.Out\<close>, and the pod-list
  queries sent to the cluster, each with its namespace and label selector.
\<close>

record world =
  Out :: string
  queries :: "(string \<times> string) list"

text \<open>\<open>Complete\<close> gets the result of \<open>cmd.Flags().GetString("namespace")\<close>.\<close>

definition Complete :: "IPsOptions \<Rightarrow> error + string \<Rightarrow> error + IPsOptions" where
  "Complete opts getString =
     (case getString of
        Inl err \<Rightarrow> Inl (Wrapped ''failed to get namespace flag'' err)
      | Inr ns \<Rightarrow>
          (let opts = opts\<lparr>namespace := ns\<rparr>;
               opts = (if allNamespaces opts then opts\<lparr>namespace := []\<rparr> else opts);
               opts = (if namespace opts = [] \<and> \<not> allNamespaces opts then
                         (case configFlags_Namespace opts of
                            Some n \<Rightarrow> if n \<noteq> [] then opts\<lparr>namespace := n\<rparr>
                                       else opts\<lparr>namespace := ''default''\<rparr>
                          | None \<Rightarrow> opts\<lparr>namespace := ''default''\<rparr>)
                       else opts)
           in Inr opts))"

definition Validate :: "IPsOptions \<Rightarrow> error option" where
  "Validate opts =
     (if outputFormat opts = tableFormat \<or> outputFormat opts = wideFormat \<or>
         outputFormat opts = jsonFormat \<or> outputFormat opts = yamlFormat \<or>
         outputFormat opts = nameFormat \<or> outputFormat opts = []
      then None
      else Some ErrUnsupportedFormat)"

definition getPods :: "collab \<Rightarrow> IPsOptions \<Rightarrow> world \<Rightarrow> (error + Pod list) \<times> world" where
  "getPods c opts w =
     (case ToRESTConfig c of
        Some err \<Rightarrow> (Inl (Wrapped ''failed to get REST config'' err), w)
      | None \<Rightarrow>
          (case NewForConfig c of
             Some err \<Rightarrow> (Inl (Wrapped ''failed to create kubernetes client'' err), w)
           | None \<Rightarrow>
               (let selector = (if labelSelector opts \<noteq> [] then labelSelector opts else []);
                    ns = (if allNamespaces opts then [] else namespace opts);
                    w = w\<lparr>queries := queries w @ [(ns, selector)]\<rparr>
                in case Pods_List c ns selector of
                     Inl err \<Rightarrow> (Inl (Wrapped ''failed to list pods'' err), w)
                   | Inr pods \<Rightarrow> (Inr pods, w))))"

text \<open>\<open>labels.Parse\<close> returns a nil selector with its error, and the error is dropped:
  the call of \<open>String\<close> on it then panics.\<close>

definition printNoPodsFound :: "collab \<Rightarrow> IPsOptions \<Rightarrow> world \<Rightarrow> error option \<times> world" where
  "printNoPodsFound c opts w =
     (let ns = namespace opts;
          ns = (if ns = [] then ''all namespaces'' else ns)
      in if labelSelector opts \<noteq> [] then
           (case labels_Parse c (labelSelector opts) of
              Inl _ \<Rightarrow> (Some NilDereference, w)
            | Inr selector \<Rightarrow>
                (None, w\<lparr>Out := snd (Fprint (Out w)
                   (''No pods found in '' @ ns @ '' matching selector '' @ Quote c selector
                      @ ''\<newline>''))\<rparr>))
         else (None, w\<lparr>Out := snd (Fprint (Out w) (''No pods found in '' @ ns @ ''\<newline>''))\<rparr>))"

definition Run :: "collab \<Rightarrow> IPsOptions \<Rightarrow> world \<Rightarrow> error option \<times> world" where
  "Run c opts w =
     (case getPods c opts w of
        (Inl err, w) \<Rightarrow> (Some err, w)
      | (Inr pods, w) \<Rightarrow>
          if showIPsOnly opts then
            (case PrintObj c ipOnlyPrinter (PodListObj pods) (Out w) of
               (err, out) \<Rightarrow> (err, w\<lparr>Out := out\<rparr>))
          else if length pods = 0 then printNoPodsFound c opts w
          else
            (let wide = (outputFormat opts = wideFormat);
                 table = generateTable c pods (allNamespaces opts) wide (showLabels opts)
             in if length (Rows table) = 0 then printNoPodsFound c opts w
                else
                  (case createPrinter (outputFormat opts) (noHeaders opts) (allNamespaces opts) of
                     Inl err \<Rightarrow> (Some err, w)
                   | Inr printer \<Rightarrow>
                       (case PrintObj c printer (TableObj table) (Out w) of
                          (Some err, out) \<Rightarrow>
                            (Some (Wrapped ''failed to print object'' err), w\<lparr>Out := out\<rparr>)
                        | (None, out) \<Rightarrow> (None, w\<lparr>Out := out\<rparr>)))))"

text \<open>
  The \<open>RunE\<close> function of \<open>NewCmdIPs\<close>. The command registers the \<open>namespace\<close> flag
  (\<open>configFlags.AddFlags\<close>), so reading it gives its value \<open>flagNamespace\<close>.
\<close>

definition RunE :: "collab \<Rightarrow> IPsOptions \<Rightarrow> string \<Rightarrow> world \<Rightarrow> error option \<times> world" where
  "RunE c opts flagNamespace w =
     (case Complete opts (Inr flagNamespace) of
        Inl err \<Rightarrow> (Some err, w)
      | Inr opts \<Rightarrow>
          (case Validate opts of
             Some err \<Rightarrow> (Some err, w)
           | None \<Rightarrow> Run c opts w))"

text \<open>\<open>main\<close>: the exit code of the process.\<close>

definition exitCode :: "error option \<Rightarrow> nat" where
  "exitCode err = (case err of Some _ \<Rightarrow> 1 | None \<Rightarrow> 0)"

section \<open>Notions the properties are stated with\<close>

text \<open>The non-empty IP strings in the status of a pod: its primary IP and the entries of
  its secondary list.\<close>

definition addresses :: "Pod \<Rightarrow> string set" where
  "addresses p = {a. a \<noteq> [] \<and> (a = Status_PodIP p \<or> a \<in> set (Status_PodIPs p))}"

text \<open>The primary IP of a pod as a list: empty when the pod has none.\<close>

definition primary :: "Pod \<Rightarrow> string list" where
  "primary p = (if Status_PodIP p \<noteq> [] then [Status_PodIP p] else [])"

section \<open>Example pods and libraries\<close>

definition zeroPod :: Pod where
  "zeroPod = \<lparr>Name = [], Namespace = [], CreationTimestamp = 0, DeletionTimestamp = None,
     Labels = [], Spec_NodeName = [], Status_Phase = [], Status_Reason = [], Status_PodIP = [],
     Status_PodIPs = [], Status_InitContainerStatuses = [], Status_ContainerStatuses = []\<rparr>"

definition crashing :: ContainerStatus where
  "crashing = \<lparr>State_Waiting = Some ''CrashLoopBackOff'', State_Running = None,
     State_Terminated = None, Ready = False, RestartCount = 7\<rparr>"

definition pod_lost :: Pod where
  "pod_lost = zeroPod\<lparr>Name := ''web-0'', Namespace := ''default'', DeletionTimestamp := Some 1,
     Status_Phase := ''Running'', Status_Reason := ''NodeLost'',
     Status_ContainerStatuses := [crashing]\<rparr>"

definition pod_deleted :: Pod where
  "pod_deleted = zeroPod\<lparr>Name := ''web-1'', Namespace := ''default'', DeletionTimestamp := Some 1,
     Status_Phase := ''Running'', Status_InitContainerStatuses := [crashing]\<rparr>"

text \<open>
  Libraries for the examples: the insertion sort for \<open>sort.Slice\<close>, a cluster that
  answers every query with the given pods, and a tabular printer that writes nothing.
  \<open>go_collab\<close> sorts with the library's implementation instead.
\<close>

definition example_collab :: "Pod list \<Rightarrow> collab" where
  "example_collab pods =
     \<lparr>sort_Slice = insertionSort,
      time_Since = (\<lambda>t. 7200000000000),
      HumanDuration = (\<lambda>d. ''120m''),
      ToRESTConfig = None,
      NewForConfig = None,
      Pods_List = (\<lambda>ns selector. Inr pods),
      labels_Parse = (\<lambda>s. Inr s),
      Quote = (\<lambda>s. CHR 0x22 # s @ [CHR 0x22]),
      json_MarshalIndent = (\<lambda>obj. Inl (LibError ''json'')),
      yaml_Marshal = (\<lambda>obj. Inl (LibError ''yaml'')),
      TablePrinter_PrintObj = (\<lambda>noHeaders obj out. (None, out))\<rparr>"

definition go_collab :: collab where
  "go_collab = (example_collab [])\<lparr>sort_Slice := go_sort_Slice\<rparr>"

definition pair_new :: podIPWithPod where
  "pair_new = \<lparr>pod = zeroPod\<lparr>Name := ''web-0'', Namespace := ''default'', Status_Phase := ''Running''\<rparr>,
     ip = ''10.0.0.1''\<rparr>"

definition pair_db :: podIPWithPod where
  "pair_db = \<lparr>pod = zeroPod\<lparr>Name := ''db-0'', Namespace := ''default''\<rparr>, ip = ''10.0.0.9''\<rparr>"

definition pair_dns :: podIPWithPod where
  "pair_dns = \<lparr>pod = zeroPod\<lparr>Name := ''coredns'', Namespace := ''kube-system''\<rparr>, ip = ''10.0.0.2''\<rparr>"

text \<open>Two host-network pods on one dual-stack node, a pod without a primary IP, and two
  pods that share no IP.\<close>

definition pod_proxy :: Pod where
  "pod_proxy = zeroPod\<lparr>Name := ''kube-proxy-x'', Namespace := ''kube-system'',
     Status_PodIP := ''192.168.1.10'', Status_PodIPs := [''192.168.1.10'', ''fd00::10'']\<rparr>"

definition pod_cni :: Pod where
  "pod_cni = zeroPod\<lparr>Name := ''cni-y'', Namespace := ''kube-system'',
     Status_PodIP := ''192.168.1.10'', Status_PodIPs := [''192.168.1.10'', ''fd00::10'']\<rparr>"

definition pod_noprimary :: Pod where
  "pod_noprimary = zeroPod\<lparr>Name := ''v6-only'', Namespace := ''default'',
     Status_PodIPs := [''fd00::7'']\<rparr>"

definition pod_a :: Pod where
  "pod_a = zeroPod\<lparr>Name := ''a'', Namespace := ''default'', Status_Phase := ''Running'',
     Status_PodIP := ''10.0.0.2'', Status_PodIPs := [''10.0.0.2'']\<rparr>"

definition pod_b :: Pod where
  "pod_b = zeroPod\<lparr>Name := ''b'', Namespace := ''default'', Status_Phase := ''Running'',
     Status_PodIP := ''10.0.0.1'', Status_PodIPs := [''10.0.0.1'']\<rparr>"

definition emptyWorld :: world where
  "emptyWorld = \<lparr>Out = [], queries = []\<rparr>"

text \<open>Thirteen pairs: one with the IP \<open>10.0.0.2\<close>, and twelve with the same namespace, pod
  name and IP \<open>10.0.0.1\<close> whose pod records differ in the node name.\<close>

definition replica :: "nat \<Rightarrow> podIPWithPod" where
  "replica k = \<lparr>pod = zeroPod\<lparr>Name := ''web'', Namespace := ''default'',
     Spec_NodeName := ''node-'' @ itoa_nat k\<rparr>, ip = ''10.0.0.1''\<rparr>"

definition pair_second :: podIPWithPod where
  "pair_second = \<lparr>pod = zeroPod\<lparr>Name := ''web'', Namespace := ''default''\<rparr>, ip = ''10.0.0.2''\<rparr>"

section \<open>Sorting: what the promise of the library gives\<close>

lemma podIPLess_sortKey: "podIPLess a b \<longleftrightarrow> sortKey a < sortKey b"
  by (auto simp: podIPLess_def sortKey_def)

lemma strict_weak_podIPLess: "strict_weak podIPLess"
  by (auto simp: strict_weak_def podIPLess_sortKey)

lemma sorted_wrt_podIPLess:
  "sorted_wrt (\<lambda>a b. \<not> podIPLess b a) ys \<longleftrightarrow> sorted (map sortKey ys)"
  by (simp add: sorted_map podIPLess_sortKey not_less)

lemma mset_insertLeft: "mset (insertLeft lt x ys) = add_mset x (mset ys)"
  by (induction ys) simp_all

lemma mset_insert_loop:
  "mset (foldl (\<lambda>pre x. insertLeft lt x pre) acc xs) = mset acc + mset xs"
  by (induction xs arbitrary: acc) (simp_all add: mset_insertLeft)

lemma mset_insertionSort: "mset (insertionSort lt xs) = mset xs"
  by (simp add: insertionSort_def mset_insert_loop)

lemma set_insertLeft: "set (insertLeft lt x ys) = insert x (set ys)"
  by (induction ys) auto

lemma descending_insertLeft:
  assumes sw: "strict_weak lt" and d: "sorted_wrt (\<lambda>a b. \<not> lt a b) ys"
  shows "sorted_wrt (\<lambda>a b. \<not> lt a b) (insertLeft lt x ys)"
  using d
proof (induction ys)
  case Nil
  then show ?case by simp
next
  case (Cons y ys)
  from sw have asym: "\<And>a b. lt a b \<Longrightarrow> \<not> lt b a"
    and ntr: "\<And>a b c. \<not> lt a b \<Longrightarrow> \<not> lt b c \<Longrightarrow> \<not> lt a c"
    unfolding strict_weak_def by blast+
  show ?case
  proof (cases "lt x y")
    case True
    with Cons asym show ?thesis by (auto simp: set_insertLeft)
  next
    case False
    with Cons.prems ntr show ?thesis by auto
  qed
qed

lemma descending_insert_loop:
  "strict_weak lt \<Longrightarrow> sorted_wrt (\<lambda>a b. \<not> lt a b) acc \<Longrightarrow>
     sorted_wrt (\<lambda>a b. \<not> lt a b) (foldl (\<lambda>pre x. insertLeft lt x pre) acc xs)"
  by (induction xs arbitrary: acc) (simp_all add: descending_insertLeft)

lemma sorted_insertionSort:
  "strict_weak lt \<Longrightarrow> sorted_wrt (\<lambda>a b. \<not> lt b a) (insertionSort lt xs)"
  by (simp add: insertionSort_def sorted_wrt_rev descending_insert_loop)

lemma contract_insertionSort: "sort_Slice c = insertionSort \<Longrightarrow> sort_Slice_contract c"
  by (simp add: sort_Slice_contract_def mset_insertionSort sorted_insertionSort)

lemma sorter_mset: "sort_Slice_contract c \<Longrightarrow> mset (sortPodIPsWithPods c xs) = mset xs"
  using strict_weak_podIPLess by (simp add: sort_Slice_contract_def sortPodIPsWithPods_def)

lemma sorter_sorted: "sort_Slice_contract c \<Longrightarrow> sorted (map sortKey (sortPodIPsWithPods c xs))"
  using strict_weak_podIPLess
  by (simp add: sort_Slice_contract_def sortPodIPsWithPods_def flip: sorted_wrt_podIPLess)

lemma sorter_keys:
  assumes "sort_Slice_contract c"
  shows "map sortKey (sortPodIPsWithPods c xs) = sort (map sortKey xs)"
proof -
  have "mset (map sortKey (sortPodIPsWithPods c xs)) = mset (map sortKey xs)"
    using sorter_mset [OF assms, of xs] by (metis mset_map)
  then show ?thesis
    using sorter_sorted [OF assms, of xs] by (intro properties_for_sort [symmetric])
qed

lemma sorted_key_unique:
  assumes m: "mset ys = mset zs" and sy: "sorted (map f ys)" and sz: "sorted (map f zs)"
    and d: "distinct (map f ys)"
  shows "ys = zs"
proof -
  have mm: "mset (map f ys) = mset (map f zs)" using m by (metis mset_map)
  then have dz: "distinct (map f zs)" using d by (metis mset_eq_imp_distinct_iff)
  have "set (map f ys) = set (map f zs)" using mm by (metis set_mset_mset)
  with sy sz d dz have eq: "map f ys = map f zs" by (rule_tac sorted_distinct_set_unique)
  have "set ys = set zs" using m by (metis set_mset_mset)
  moreover have "inj_on f (set ys)" using d by (simp add: distinct_map)
  ultimately show ?thesis using eq by (auto intro: map_inj_on)
qed

lemma contract_example_collab: "sort_Slice_contract (example_collab pods)"
  by (rule contract_insertionSort) (simp add: example_collab_def)

section \<open>Sorting: the implementation of the library\<close>

lemma Swap_adjacent:
  "Swap (pre @ y # x # post) (Suc (length pre)) (length pre) = pre @ x # y # post"
  by (simp add: Swap_def nth_append list_update_append)

lemma insertionInner_insertLeft:
  "insertionInner lt (pre @ x # post) 0 (length pre) = rev (insertLeft lt x (rev pre)) @ post"
proof (induction pre arbitrary: post rule: rev_induct)
  case Nil
  show ?case by (subst insertionInner.simps) simp
next
  case (snoc y pre)
  show ?case
  proof (cases "lt x y")
    case True
    have "insertionInner lt ((pre @ [y]) @ x # post) 0 (length (pre @ [y])) =
        insertionInner lt (pre @ x # y # post) 0 (length pre)"
      using True Swap_adjacent [of pre y x post]
      by (subst insertionInner.simps) (simp add: nth_append)
    with True snoc [of "y # post"] show ?thesis by simp
  next
    case False
    then show ?thesis by (subst insertionInner.simps) (simp add: nth_append)
  qed
qed

lemma length_insertLeft: "length (insertLeft lt x ys) = Suc (length ys)"
  by (induction ys) simp_all

lemma insertionOuter_foldl:
  "insertionOuter lt (pre @ rest) 0 (length pre + length rest) (length pre) =
     rev (foldl (\<lambda>pre x. insertLeft lt x pre) (rev pre) rest)"
proof (induction rest arbitrary: pre)
  case Nil
  show ?case by (subst insertionOuter.simps) simp
next
  case (Cons x rest)
  let ?pre = "rev (insertLeft lt x (rev pre))"
  have l: "length ?pre = Suc (length pre)" by (simp add: length_insertLeft)
  have "insertionOuter lt (pre @ x # rest) 0 (length pre + length (x # rest)) (length pre) =
      insertionOuter lt (?pre @ rest) 0 (length ?pre + length rest) (length ?pre)"
    by (subst insertionOuter.simps) (simp add: insertionInner_insertLeft length_insertLeft)
  with Cons [of ?pre] show ?case by (simp add: length_insertLeft)
qed

lemma insertionSort_func_whole:
  "insertionSort_func lt data 0 (length data) = insertionSort lt data"
proof (cases data)
  case Nil
  then show ?thesis
    by (simp add: insertionSort_func_def insertionSort_def insertionOuter.simps)
next
  case (Cons x rest)
  then show ?thesis
    using insertionOuter_foldl [of lt "[x]" rest]
    by (simp add: insertionSort_func_def insertionSort_def)
qed

lemma go_sort_Slice_short:
  "length x \<le> 12 \<Longrightarrow> go_sort_Slice lt x = insertionSort lt x"
  by (simp add: go_sort_Slice_def pdqsort_func.simps insertionSort_func_whole)

lemma insertLeft_sorted:
  "(ys = [] \<or> \<not> lt x (hd ys)) \<Longrightarrow> insertLeft lt x ys = x # ys"
  by (cases ys) auto

lemma insert_loop_sorted:
  "sorted_wrt (\<lambda>a b. \<not> lt b a) (pre @ rest) \<Longrightarrow>
     foldl (\<lambda>pre x. insertLeft lt x pre) (rev pre) rest = rev (pre @ rest)"
proof (induction rest arbitrary: pre)
  case Nil
  then show ?case by simp
next
  case (Cons x rest)
  have "insertLeft lt x (rev pre) = x # rev pre"
    using Cons.prems
    by (intro insertLeft_sorted) (auto simp: sorted_wrt_append hd_rev last_in_set)
  moreover have "sorted_wrt (\<lambda>a b. \<not> lt b a) ((pre @ [x]) @ rest)" using Cons.prems by simp
  ultimately show ?case using Cons.IH [of "pre @ [x]"] by simp
qed

lemma insertionSort_sorted_id:
  "sorted_wrt (\<lambda>a b. \<not> lt b a) xs \<Longrightarrow> insertionSort lt xs = xs"
  using insert_loop_sorted [of lt "[]" xs] by (simp add: insertionSort_def)


lemma sorted_nth:
  "sorted_wrt (\<lambda>a b. \<not> lt b a) data \<Longrightarrow> p < q \<Longrightarrow> q < length data \<Longrightarrow>
     \<not> lt (data ! q) (data ! p)"
  by (simp add: sorted_wrt_iff_nth_less)

lemma order2_sorted:
  "sorted_wrt (\<lambda>a b. \<not> lt b a) data \<Longrightarrow> p < q \<Longrightarrow> q < length data \<Longrightarrow>
     order2_func lt data p q swaps = (p, q, swaps)"
  by (simp add: order2_func_def sorted_nth)

lemma median_sorted:
  assumes "sorted_wrt (\<lambda>a b. \<not> lt b a) data" "p < q" "q < r" "r < length data"
  shows "median_func lt data p q r swaps = (q, swaps)"
  using assms by (simp add: median_func_def order2_sorted)

lemma choosePivot_sorted:
  assumes "sorted_wrt (\<lambda>a b. \<not> lt b a) data" "12 < length data"
  shows "snd (choosePivot_func lt data 0 (length data)) = increasingHint"
proof -
  let ?l = "length data"
  let ?q = "?l div 4"
  have q: "3 \<le> ?q" "?q * 3 < ?l" "?q < ?q * 2" "?q * 2 < ?q * 3" using assms(2) by auto
  have m: "median_func lt data ?q (?q * 2) (?q * 3) 0 = (?q * 2, 0)"
    using q by (intro median_sorted [OF assms(1)]) auto
  have a: "medianAdjacent_func lt data i 0 = (i, 0)" if "0 < i" "i + 1 < ?l" for i
    using that unfolding medianAdjacent_func_def
    by (intro median_sorted [OF assms(1)]) auto
  have "medianAdjacent_func lt data ?q 0 = (?q, 0)"
    "medianAdjacent_func lt data (?q * 2) 0 = (?q * 2, 0)"
    "medianAdjacent_func lt data (?q * 3) 0 = (?q * 3, 0)" if "50 \<le> ?l"
    using that q by (auto intro!: a)
  with m assms(2) show ?thesis
    by (simp add: choosePivot_func_def Let_def)
qed

lemma scanSorted_all:
  "i \<le> b \<Longrightarrow> (\<And>k. i \<le> k \<Longrightarrow> k < b \<Longrightarrow> \<not> lt (data ! k) (data ! (k - 1))) \<Longrightarrow>
     scanSorted lt data b i = b"
proof (induction lt data b i rule: scanSorted.induct)
  case (1 lt data b i)
  show ?case
  proof (cases "i < b")
    case True
    then have "\<not> lt (data ! i) (data ! (i - 1))" using "1.prems"(2) [of i] by simp
    moreover have "scanSorted lt data b (i + 1) = b"
      using True "1.prems"(2) calculation by (intro "1.IH") auto
    ultimately show ?thesis using True by (subst scanSorted.simps) simp
  next
    case False
    with "1.prems"(1) show ?thesis by (subst scanSorted.simps) simp
  qed
qed

lemma partialInsertionSort_sorted:
  assumes "sorted_wrt (\<lambda>a b. \<not> lt b a) data" "0 < length data"
  shows "partialInsertionSort_func lt data 0 (length data) = (data, True)"
proof -
  have "\<not> lt (data ! k) (data ! (k - 1))" if "1 \<le> k" "k < length data" for k
    using that by (intro sorted_nth [OF assms(1)]) auto
  moreover have "1 \<le> length data" using assms(2) by (cases data) simp_all
  ultimately have "scanSorted lt data (length data) 1 = length data"
    by (intro scanSorted_all) auto
  then show ?thesis
    by (simp add: partialInsertionSort_func_def numeral_eq_Suc Let_def)
qed

lemma bits_Len_pos: "0 < n \<Longrightarrow> 0 < bits_Len n"
  by (subst bits_Len.simps) simp

lemma go_sort_Slice_sorted:
  assumes "sorted_wrt (\<lambda>a b. \<not> lt b a) x"
  shows "go_sort_Slice lt x = x"
proof (cases "length x \<le> 12")
  case True
  then show ?thesis by (simp add: go_sort_Slice_short insertionSort_sorted_id [OF assms])
next
  case False
  then have l: "12 < length x" "0 < length x" by auto
  obtain pivot where c: "choosePivot_func lt x 0 (length x) = (pivot, increasingHint)"
    using choosePivot_sorted [OF assms l(1)] by (cases "choosePivot_func lt x 0 (length x)") simp
  have "pdq_step lt x 0 (length x) (bits_Len (length x)) True True = Sorted x"
    by (simp add: pdq_step_def c partialInsertionSort_sorted [OF assms l(2)])
  with False bits_Len_pos [OF l(2)] show ?thesis
    by (simp add: go_sort_Slice_def pdqsort_func.simps)
qed

lemma filter_insertLeft:
  "(\<And>y. lt x y \<Longrightarrow> \<not> (P x \<and> P y)) \<Longrightarrow>
     filter P (insertLeft lt x ys) = (if P x then x # filter P ys else filter P ys)"
  by (induction ys) auto

lemma filter_insert_loop:
  "(\<And>x y. lt x y \<Longrightarrow> \<not> (P x \<and> P y)) \<Longrightarrow>
     filter P (foldl (\<lambda>pre x. insertLeft lt x pre) acc xs) = rev (filter P xs) @ filter P acc"
  by (induction xs arbitrary: acc) (simp_all add: filter_insertLeft)

lemma insertionSort_stable:
  "(\<And>x y. lt x y \<Longrightarrow> f x \<noteq> f y) \<Longrightarrow>
     filter (\<lambda>x. f x = k) (insertionSort lt xs) = filter (\<lambda>x. f x = k) xs"
proof -
  assume "\<And>x y. lt x y \<Longrightarrow> f x \<noteq> f y"
  then have "filter (\<lambda>x. f x = k) (foldl (\<lambda>pre x. insertLeft lt x pre) [] xs) =
      rev (filter (\<lambda>x. f x = k) xs) @ filter (\<lambda>x. f x = k) []"
    by (intro filter_insert_loop) metis
  then show ?thesis by (simp add: insertionSort_def rev_filter [symmetric])
qed

lemma go_sort_Slice_as_implemented:
  "sort_Slice c = go_sort_Slice \<Longrightarrow> sort_Slice_as_implemented c"
  by (simp add: sort_Slice_as_implemented_def go_sort_Slice_short go_sort_Slice_sorted)

lemma insertionSort_as_implemented:
  "sort_Slice c = insertionSort \<Longrightarrow> sort_Slice_as_implemented c"
  by (simp add: sort_Slice_as_implemented_def insertionSort_sorted_id)

lemma example_collab_as_implemented: "sort_Slice_as_implemented (example_collab pods)"
  by (rule insertionSort_as_implemented) (simp add: example_collab_def)

lemma go_collab_as_implemented: "sort_Slice_as_implemented go_collab"
  by (rule go_sort_Slice_as_implemented) (simp add: go_collab_def)

section \<open>The extractor: what one pass emits\<close>

lemma secondary_ips:
  "set (map ip (fst (extractSecondary p u as))) = {a \<in> set as. a \<noteq> [] \<and> \<not> u a}"
  by (induction as arbitrary: u) (auto simp: case_prod_beta)

lemma secondary_seen:
  "snd (extractSecondary p u as) = (\<lambda>x. u x \<or> (x \<in> set as \<and> x \<noteq> []))"
  by (induction as arbitrary: u) (auto simp: case_prod_beta fun_eq_iff)

lemma secondary_distinct: "distinct (map ip (fst (extractSecondary p u as)))"
proof (induction as arbitrary: u)
  case Nil
  then show ?case by simp
next
  case (Cons a as)
  have "a \<notin> set (map ip (fst (extractSecondary p (u(a := True)) as)))"
    unfolding secondary_ips by simp
  with Cons show ?case by (simp add: case_prod_beta)
qed

lemma secondary_shape:
  "\<exists>sec. fst (extractSecondary p u as) = map (\<lambda>a. \<lparr>pod = p, ip = a\<rparr>) sec \<and> subseq sec as"
proof (induction as arbitrary: u)
  case Nil
  then show ?case by simp
next
  case (Cons a as)
  show ?case
  proof (cases "a \<noteq> [] \<and> \<not> u a")
    case True
    from Cons [of "u(a := True)"] obtain sec where
      "fst (extractSecondary p (u(a := True)) as) = map (\<lambda>a. \<lparr>pod = p, ip = a\<rparr>) sec" "subseq sec as"
      by blast
    with True have "fst (extractSecondary p u (a # as)) = map (\<lambda>a. \<lparr>pod = p, ip = a\<rparr>) (a # sec)
        \<and> subseq (a # sec) (a # as)"
      by (simp add: case_prod_beta)
    then show ?thesis by blast
  next
    case False
    from Cons [of u] obtain sec where
      "fst (extractSecondary p u as) = map (\<lambda>a. \<lparr>pod = p, ip = a\<rparr>) sec" "subseq sec as"
      by blast
    with False have "fst (extractSecondary p u (a # as)) = map (\<lambda>a. \<lparr>pod = p, ip = a\<rparr>) sec
        \<and> subseq sec (a # as)"
      by auto
    then show ?thesis by blast
  qed
qed

lemma pod_shape:
  "\<exists>sec. fst (extractPod u p) = map (\<lambda>a. \<lparr>pod = p, ip = a\<rparr>) (primary p @ sec)
     \<and> subseq sec (Status_PodIPs p) \<and> [] \<notin> set sec \<and> distinct (primary p @ sec)"
proof (cases "Status_PodIP p \<noteq> []")
  case True
  let ?u = "u(Status_PodIP p := True)"
  obtain sec where s: "fst (extractSecondary p ?u (Status_PodIPs p)) = map (\<lambda>a. \<lparr>pod = p, ip = a\<rparr>) sec"
      "subseq sec (Status_PodIPs p)"
    using secondary_shape by blast
  have i: "map ip (fst (extractSecondary p ?u (Status_PodIPs p))) = sec"
    by (simp add: s comp_def)
  have "set sec = {a \<in> set (Status_PodIPs p). a \<noteq> [] \<and> \<not> ?u a}" "distinct sec"
    using secondary_ips [of p ?u "Status_PodIPs p"] secondary_distinct [of p ?u "Status_PodIPs p"]
    unfolding i by simp_all
  then have "[] \<notin> set sec" "Status_PodIP p \<notin> set sec" "distinct sec" by auto
  with True s show ?thesis
    by (intro exI [of _ sec]) (simp add: extractPod_def primary_def case_prod_beta)
next
  case False
  obtain sec where s: "fst (extractSecondary p u (Status_PodIPs p)) = map (\<lambda>a. \<lparr>pod = p, ip = a\<rparr>) sec"
      "subseq sec (Status_PodIPs p)"
    using secondary_shape by blast
  have i: "map ip (fst (extractSecondary p u (Status_PodIPs p))) = sec"
    by (simp add: s comp_def)
  have "set sec = {a \<in> set (Status_PodIPs p). a \<noteq> [] \<and> \<not> u a}" "distinct sec"
    using secondary_ips [of p u "Status_PodIPs p"] secondary_distinct [of p u "Status_PodIPs p"]
    unfolding i by simp_all
  then have "[] \<notin> set sec" "distinct sec" by auto
  with False s show ?thesis
    by (intro exI [of _ sec]) (simp add: extractPod_def primary_def)
qed

lemma pod_ips:
  "set (map ip (fst (extractPod u p))) = {a \<in> addresses p. a = Status_PodIP p \<or> \<not> u a}"
  by (auto simp: extractPod_def addresses_def case_prod_beta secondary_ips
      simp del: set_map)

lemma pod_seen: "snd (extractPod u p) = (\<lambda>x. u x \<or> x \<in> addresses p)"
  by (auto simp: extractPod_def addresses_def case_prod_beta secondary_seen fun_eq_iff)

lemma pod_distinct: "distinct (map ip (fst (extractPod u p)))"
proof -
  from pod_shape [of u p] obtain sec where
    "fst (extractPod u p) = map (\<lambda>a. \<lparr>pod = p, ip = a\<rparr>) (primary p @ sec)" "distinct (primary p @ sec)"
    by blast
  then show ?thesis by (simp add: comp_def)
qed

lemma loop_shape:
  "\<exists>segs. extractLoop u ps = concat segs \<and>
     list_all2 (\<lambda>p seg. \<exists>sec. seg = map (\<lambda>a. \<lparr>pod = p, ip = a\<rparr>) (primary p @ sec)
        \<and> subseq sec (Status_PodIPs p) \<and> [] \<notin> set sec \<and> distinct (primary p @ sec)) ps segs"
proof (induction ps arbitrary: u)
  case Nil
  then show ?case by simp
next
  case (Cons p ps)
  from Cons [of "snd (extractPod u p)"] obtain segs where
    "extractLoop (snd (extractPod u p)) ps = concat segs"
    "list_all2 (\<lambda>p seg. \<exists>sec. seg = map (\<lambda>a. \<lparr>pod = p, ip = a\<rparr>) (primary p @ sec)
        \<and> subseq sec (Status_PodIPs p) \<and> [] \<notin> set sec \<and> distinct (primary p @ sec)) ps segs"
    by blast
  with pod_shape [of u p] show ?case
    by (intro exI [of _ "fst (extractPod u p) # segs"]) (simp add: case_prod_beta)
qed

lemma loop_ips_sub: "set (map ip (extractLoop u ps)) \<subseteq> \<Union> (addresses ` set ps)"
proof (induction ps arbitrary: u)
  case Nil
  then show ?case by simp
next
  case (Cons p ps)
  have "set (map ip (fst (extractPod u p))) \<subseteq> addresses p"
    unfolding pod_ips by blast
  with Cons [of "snd (extractPod u p)"] show ?case
    by (auto simp: case_prod_beta simp del: set_map)
qed

lemma loop_ips_sup: "{a \<in> \<Union> (addresses ` set ps). \<not> u a} \<subseteq> set (map ip (extractLoop u ps))"
proof (induction ps arbitrary: u)
  case Nil
  then show ?case by simp
next
  case (Cons p ps)
  have seg: "{a \<in> addresses p. \<not> u a} \<subseteq> set (map ip (fst (extractPod u p)))"
    unfolding pod_ips by blast
  have rest: "{a \<in> \<Union> (addresses ` set ps). \<not> (u a \<or> a \<in> addresses p)}
      \<subseteq> set (map ip (extractLoop (snd (extractPod u p)) ps))"
    using Cons [of "snd (extractPod u p)"] by (simp add: pod_seen)
  show ?case
  proof
    fix a assume "a \<in> {a \<in> \<Union> (addresses ` set (p # ps)). \<not> u a}"
    then have "a \<in> {a \<in> addresses p. \<not> u a} \<or>
        a \<in> {a \<in> \<Union> (addresses ` set ps). \<not> (u a \<or> a \<in> addresses p)}"
      by auto
    with seg rest show "a \<in> set (map ip (extractLoop u (p # ps)))"
      by (auto simp: case_prod_beta simp del: set_map)
  qed
qed

lemma extract_ips: "set (map ip (extractPodIPsWithPods pods)) = \<Union> (addresses ` set pods)"
  using loop_ips_sub [of "\<lambda>_. False" pods] loop_ips_sup [of pods "\<lambda>_. False"]
  by (auto simp: extractPodIPsWithPods_def simp del: set_map)

lemma loop_distinct:
  "(\<forall>i<length ps. \<forall>j<length ps. i \<noteq> j \<longrightarrow> addresses (ps ! i) \<inter> addresses (ps ! j) = {}) \<Longrightarrow>
     distinct (map ip (extractLoop u ps))"
proof (induction ps arbitrary: u)
  case Nil
  then show ?case by simp
next
  case (Cons p ps)
  have tl: "\<forall>i<length ps. \<forall>j<length ps. i \<noteq> j \<longrightarrow> addresses (ps ! i) \<inter> addresses (ps ! j) = {}"
  proof (intro allI impI)
    fix i j assume "i < length ps" "j < length ps" "i \<noteq> j"
    with Cons.prems [rule_format, of "Suc i" "Suc j"]
    show "addresses (ps ! i) \<inter> addresses (ps ! j) = {}" by simp
  qed
  have hd: "addresses p \<inter> \<Union> (addresses ` set ps) = {}"
  proof -
    have "addresses p \<inter> addresses q = {}" if "q \<in> set ps" for q
    proof -
      from that obtain j where "j < length ps" "ps ! j = q" by (auto simp: in_set_conv_nth)
      with Cons.prems [rule_format, of 0 "Suc j"] show ?thesis by simp
    qed
    then show ?thesis by blast
  qed
  have a: "set (map ip (fst (extractPod u p))) \<subseteq> addresses p" unfolding pod_ips by blast
  have b: "set (map ip (extractLoop (snd (extractPod u p)) ps)) \<subseteq> \<Union> (addresses ` set ps)"
    by (rule loop_ips_sub)
  from a b hd have "set (map ip (fst (extractPod u p))) \<inter>
      set (map ip (extractLoop (snd (extractPod u p)) ps)) = {}" by blast
  with Cons.IH [OF tl, of "snd (extractPod u p)"] pod_distinct [of u p] show ?case
    by (simp add: case_prod_beta del: set_map)
qed

section \<open>The run: printers, options and the query\<close>

lemma ipPrintItems_eq:
  "ipPrintItems items out = out @ concat (map (\<lambda>item. ip item @ ''\<newline>'') items)"
  by (induction items arbitrary: out) (simp_all add: Fprint_def)

lemma makeTableRow_cells:
  "\<not> length (makeTableRow c p a showNs wd showLb) < 2"
  "makeTableRow c p a showNs wd showLb \<noteq> []"
  "showNs \<Longrightarrow> makeTableRow c p a showNs wd showLb ! 0 = Namespace p"
  "showNs \<Longrightarrow> makeTableRow c p a showNs wd showLb ! Suc 0 = Name p"
  "\<not> showNs \<Longrightarrow> makeTableRow c p a showNs wd showLb ! 0 = Name p"
  by (simp_all add: makeTableRow_def Let_def)

lemma namePrintRows_eq:
  "namePrintRows showNs
       (map (\<lambda>item. \<lparr>Cells = makeTableRow c (pod item) (ip item) showNs wd showLb,
                      Object = pod item\<rparr>) items) out =
     out @ concat (map (\<lambda>item. (if showNs then Namespace (pod item) @ ''/'' else [])
                         @ Name (pod item) @ ''\<newline>'') items)"
proof (induction items arbitrary: out)
  case Nil
  then show ?case by simp
next
  case (Cons item items)
  show ?case
  proof (cases showNs)
    case True
    then show ?thesis using Cons [of "out @ Namespace (pod item) @ ''/'' @ Name (pod item) @ ''\<newline>''"]
      by (simp add: Fprint_def makeTableRow_cells)
  next
    case False
    then show ?thesis using Cons [of "out @ Name (pod item) @ ''\<newline>''"]
      by (simp add: Fprint_def makeTableRow_cells)
  qed
qed

lemma getPods_ok:
  assumes "ToRESTConfig c = None" "NewForConfig c = None"
    and "Pods_List c (if allNamespaces opts then [] else namespace opts) (labelSelector opts) = Inr pods"
  shows "getPods c opts w =
    (Inr pods, w\<lparr>queries := queries w @
        [(if allNamespaces opts then [] else namespace opts, labelSelector opts)]\<rparr>)"
  using assms by (auto simp: getPods_def Let_def)

lemma Complete_flags:
  assumes "Complete opts (Inr flagNs) = Inr opts'"
  shows "allNamespaces opts' = allNamespaces opts" "labelSelector opts' = labelSelector opts"
    "showIPsOnly opts' = showIPsOnly opts" "outputFormat opts' = outputFormat opts"
    "noHeaders opts' = noHeaders opts" "showLabels opts' = showLabels opts"
    "allNamespaces opts \<Longrightarrow> namespace opts' = []"
  using assms by (auto simp: Complete_def Let_def split: option.splits if_splits)

lemma Complete_total: "\<exists>opts'. Complete opts (Inr flagNs) = Inr opts'"
  by (simp add: Complete_def Let_def)

lemma Validate_format: "Validate opts' = Validate opts" if "outputFormat opts' = outputFormat opts"
  using that by (simp add: Validate_def)

lemma RunE_valid:
  assumes "Complete opts (Inr flagNs) = Inr opts'" "Validate opts = None"
  shows "RunE c opts flagNs w = Run c opts' w"
  using assms Validate_format [OF Complete_flags(4) [OF assms(1)]]
  by (simp add: RunE_def)

lemma Run_ips_only:
  assumes "showIPsOnly opts" "ToRESTConfig c = None" "NewForConfig c = None"
    and "Pods_List c (if allNamespaces opts then [] else namespace opts) (labelSelector opts) = Inr pods"
  shows "Run c opts w =
    (None, w\<lparr>Out := Out w @ concat (map (\<lambda>item. ip item @ ''\<newline>'')
                (sortPodIPsWithPods c (extractPodIPsWithPods pods))),
             queries := queries w @
               [(if allNamespaces opts then [] else namespace opts, labelSelector opts)]\<rparr>)"
  using assms(1) by (simp add: Run_def getPods_ok [OF assms(2-4)] ipPrintItems_eq)

lemma sorter_Nil: "sort_Slice_contract c \<Longrightarrow> sortPodIPsWithPods c [] = []"
  using sorter_mset [of c "[]"] by simp

lemma sorter_empty_iff:
  "sort_Slice_contract c \<Longrightarrow> sortPodIPsWithPods c xs = [] \<longleftrightarrow> xs = []"
  using sorter_mset [of c xs] by (metis mset_zero_iff)

lemma Run_no_pods:
  assumes "\<not> showIPsOnly opts" "labelSelector opts = []" "namespace opts = []" "allNamespaces opts"
    and "ToRESTConfig c = None" "NewForConfig c = None" "Pods_List c [] [] = Inr []"
  shows "Run c opts w =
    (None, w\<lparr>Out := Out w @ ''No pods found in all namespaces\<newline>'',
             queries := queries w @ [([], [])]\<rparr>)"
proof -
  have "getPods c opts w = (Inr [], w\<lparr>queries := queries w @ [([], [])]\<rparr>)"
    using getPods_ok [of c opts "[]" w] assms by simp
  with assms(1-3) show ?thesis
    by (simp add: Run_def printNoPodsFound_def Fprint_def Let_def)
qed

lemma generateTable_Rows_empty:
  "sort_Slice_contract c \<Longrightarrow>
     Rows (generateTable c pods showNs wd showLb) = [] \<longleftrightarrow> extractPodIPsWithPods pods = []"
  by (simp add: generateTable_def Let_def sorter_empty_iff)

lemma extract_Nil: "extractPodIPsWithPods [] = []"
  by (simp add: extractPodIPsWithPods_def)

lemma Run_table:
  assumes "sort_Slice_contract c" "\<not> showIPsOnly opts"
    and "ToRESTConfig c = None" "NewForConfig c = None"
    and "Pods_List c (if allNamespaces opts then [] else namespace opts) (labelSelector opts) = Inr pods"
    and "extractPodIPsWithPods pods \<noteq> []"
  shows "Run c opts w =
    (let w' = w\<lparr>queries := queries w @
                 [(if allNamespaces opts then [] else namespace opts, labelSelector opts)]\<rparr>;
         table = generateTable c pods (allNamespaces opts) (outputFormat opts = wideFormat)
                   (showLabels opts)
     in case createPrinter (outputFormat opts) (noHeaders opts) (allNamespaces opts) of
          Inl err \<Rightarrow> (Some err, w')
        | Inr printer \<Rightarrow>
            (case PrintObj c printer (TableObj table) (Out w') of
               (Some err, out) \<Rightarrow> (Some (Wrapped ''failed to print object'' err), w'\<lparr>Out := out\<rparr>)
             | (None, out) \<Rightarrow> (None, w'\<lparr>Out := out\<rparr>)))"
proof -
  have "pods \<noteq> []" using assms(6) extract_Nil by blast
  with assms(2,6) show ?thesis
    by (simp add: Run_def getPods_ok [OF assms(3-5)] Let_def
        generateTable_Rows_empty [OF assms(1)])
qed

lemma createPrinter_table:
  "fmt = ''table'' \<or> fmt = ''wide'' \<or> fmt = [] \<Longrightarrow> createPrinter fmt nh ns = Inr (TablePrinter nh)"
  by (auto simp: createPrinter_def wideFormat_def tableFormat_def jsonFormat_def
      yamlFormat_def nameFormat_def)

lemma createPrinter_name: "createPrinter ''name'' nh ns = Inr (namePrinter ns)"
  by (simp add: createPrinter_def jsonFormat_def yamlFormat_def nameFormat_def)

lemma headers_namespace:
  "(''NAMESPACE'' \<in> set (map col_Name (makeTableHeaders showNs wd showLb))) = showNs"
  by (cases showNs; cases wd; cases showLb) (simp_all add: makeTableHeaders_def Let_def)

section \<open>The extractor: the same IP on two pods\<close>

text \<open>
  C1. The claim is that one pod's pairs do not depend on the other pods of the list. The
  map \<open>uniqueIPs\<close> is made once for the whole pass, so they do: of two pods with the same
  primary and secondary IP, the second keeps its primary IP and loses its secondary one,
  which it has when it is extracted alone.
\<close>

theorem extractor_drops_shared_secondary:
  "extractPodIPsWithPods [pod_proxy, pod_cni] =
     [\<lparr>pod = pod_proxy, ip = ''192.168.1.10''\<rparr>, \<lparr>pod = pod_proxy, ip = ''fd00::10''\<rparr>,
      \<lparr>pod = pod_cni, ip = ''192.168.1.10''\<rparr>]
   \<and> extractPodIPsWithPods [pod_cni] =
     [\<lparr>pod = pod_cni, ip = ''192.168.1.10''\<rparr>, \<lparr>pod = pod_cni, ip = ''fd00::10''\<rparr>]"
  by (simp add: extractPodIPsWithPods_def extractPod_def pod_proxy_def pod_cni_def zeroPod_def)

section \<open>The order of the sorted pairs\<close>

text \<open>
  C2, as the code has it. \<open>sortPodIPsWithPods\<close> hands the pairs to \<open>sort.Slice\<close>. For
  every \<open>sort.Slice\<close> that keeps the promise of its documentation and does what the
  library's implementation does on slices of at most 12 elements and on sorted slices
  (lemmas \<open>go_sort_Slice_short\<close> and \<open>go_sort_Slice_sorted\<close>), the sorter returns a
  permutation of its input in which no pair is less than a pair before it, in the
  lexicographic order of namespace, then pod name, then IP string; the keys of the output
  are the sorted keys of the input; sorting twice gives the same list as sorting once, and
  a list that is already in order is returned as it is. In a list of at most 12 pairs,
  pairs with equal keys keep their order. For longer lists nothing is said about the
  order of pairs with equal keys.
\<close>

theorem sorter_orders_by_key:
  assumes "sort_Slice_contract c" and "sort_Slice_as_implemented c"
  shows "mset (sortPodIPsWithPods c xs) = mset xs
    \<and> sorted_wrt (\<lambda>a b. \<not> podIPLess b a) (sortPodIPsWithPods c xs)
    \<and> map sortKey (sortPodIPsWithPods c xs) = sort (map sortKey xs)
    \<and> sortPodIPsWithPods c (sortPodIPsWithPods c xs) = sortPodIPsWithPods c xs
    \<and> (sorted_wrt (\<lambda>a b. \<not> podIPLess b a) xs \<longrightarrow> sortPodIPsWithPods c xs = xs)
    \<and> (length xs \<le> 12 \<longrightarrow>
         (\<forall>k. filter (\<lambda>x. sortKey x = k) (sortPodIPsWithPods c xs) =
              filter (\<lambda>x. sortKey x = k) xs))"
proof -
  let ?s = "sortPodIPsWithPods c"
  have m: "mset (?s xs) = mset xs" by (rule sorter_mset [OF assms(1)])
  have s: "sorted_wrt (\<lambda>a b. \<not> podIPLess b a) (?s xs)"
    using sorter_sorted [OF assms(1), of xs] by (simp add: sorted_wrt_podIPLess)
  have k: "map sortKey (?s xs) = sort (map sortKey xs)" by (rule sorter_keys [OF assms(1)])
  have u: "?s ys = ys" if "sorted_wrt (\<lambda>a b. \<not> podIPLess b a) ys" for ys
    using that assms(2) by (simp add: sort_Slice_as_implemented_def sortPodIPsWithPods_def)
  have st: "filter (\<lambda>x. sortKey x = k) (?s xs) = filter (\<lambda>x. sortKey x = k) xs"
    if "length xs \<le> 12" for k
  proof -
    have "?s xs = insertionSort podIPLess xs"
      using that assms(2) by (simp add: sort_Slice_as_implemented_def sortPodIPsWithPods_def)
    moreover have "filter (\<lambda>x. sortKey x = k) (insertionSort podIPLess xs) =
        filter (\<lambda>x. sortKey x = k) xs"
      by (rule insertionSort_stable) (simp add: podIPLess_sortKey)
    ultimately show ?thesis by simp
  qed
  from m s k u [OF s] u [of xs] st show ?thesis by blast
qed

theorem sorter_orders_by_key_witness:
  "sort_Slice_contract (example_collab []) \<and> sort_Slice_as_implemented (example_collab [])
   \<and> length [replica 2, pair_dns, replica 1] \<le> 12
   \<and> sortKey (replica 2) = sortKey (replica 1)
   \<and> mset (sortPodIPsWithPods (example_collab []) [replica 2, pair_dns, replica 1]) =
       mset [replica 2, pair_dns, replica 1]
   \<and> sorted_wrt (\<lambda>a b. \<not> podIPLess b a)
       (sortPodIPsWithPods (example_collab []) [replica 2, pair_dns, replica 1])
   \<and> sortPodIPsWithPods (example_collab [])
       (sortPodIPsWithPods (example_collab []) [replica 2, pair_dns, replica 1]) =
       sortPodIPsWithPods (example_collab []) [replica 2, pair_dns, replica 1]
   \<and> filter (\<lambda>x. sortKey x = sortKey (replica 1))
       (sortPodIPsWithPods (example_collab []) [replica 2, pair_dns, replica 1]) =
       [replica 2, replica 1]"
proof -
  have k: "sortKey (replica 2) = sortKey (replica 1)" "sortKey pair_dns \<noteq> sortKey (replica 1)"
    by (simp_all add: sortKey_def replica_def pair_dns_def zeroPod_def)
  have f: "filter (\<lambda>x. sortKey x = sortKey (replica 1)) [replica 2, pair_dns, replica 1] =
      [replica 2, replica 1]"
    using k by simp
  note t = sorter_orders_by_key [OF contract_example_collab example_collab_as_implemented,
      of "[]" "[replica 2, pair_dns, replica 1]"]
  have l: "length [replica 2, pair_dns, replica 1] \<le> 12" by simp
  from t l have "filter (\<lambda>x. sortKey x = sortKey (replica 1))
       (sortPodIPsWithPods (example_collab []) [replica 2, pair_dns, replica 1]) =
       filter (\<lambda>x. sortKey x = sortKey (replica 1)) [replica 2, pair_dns, replica 1]"
    by blast
  with f have "filter (\<lambda>x. sortKey x = sortKey (replica 1))
       (sortPodIPsWithPods (example_collab []) [replica 2, pair_dns, replica 1]) =
       [replica 2, replica 1]"
    by (simp only:)
  with t l k(1) contract_example_collab [of "[]"] example_collab_as_implemented [of "[]"]
  show ?thesis by blast
qed

text \<open>
  The claim that pairs with equal keys always keep their order fails for the library's
  implementation on thirteen pairs. Twelve of them have the same namespace, pod name and
  IP and differ in the node of the pod. The sixth of these is chosen as pivot and swapped
  to the front, where it stays: in the output it stands before the five that were before
  it.
\<close>

theorem sorter_stable_counterexample:
  "sortKey (replica 6) = sortKey (replica 1) \<and> replica 6 \<noteq> replica 1
   \<and> sortPodIPsWithPods go_collab (pair_second # map replica [1, 2, 3, 4, 5, 6, 7, 8, 9, 10, 11, 12])
      = map replica [6, 1, 2, 3, 4, 5, 7, 8, 9, 10, 11, 12] @ [pair_second]"
proof -
  have "sortKey (replica 6) = sortKey (replica 1)" by (simp add: sortKey_def replica_def)
  moreover have "replica 6 \<noteq> replica 1" by code_simp
  moreover have "sortPodIPsWithPods go_collab
        (pair_second # map replica [1, 2, 3, 4, 5, 6, 7, 8, 9, 10, 11, 12])
      = map replica [6, 1, 2, 3, 4, 5, 7, 8, 9, 10, 11, 12] @ [pair_second]"
    by code_simp
  ultimately show ?thesis by blast
qed

section \<open>The output of \<open>--show-ips-only\<close>\<close>

text \<open>
  C3, as the code has it. With \<open>--show-ips-only\<close>, when the query returns a pod list in
  which no two pods share an IP, the program returns success and writes one line per pair
  of the sorted extractor output, holding the pair's IP. The lines are exactly the
  non-empty IP strings of the pods, each once. Their order is the order of the sorter: by
  the namespace of the pod, then the name of the pod, then the IP string. It is not the
  lexicographic order of the IP strings.
\<close>

theorem ips_only_output:
  assumes "sort_Slice_contract c"
    and "Complete opts (Inr flagNs) = Inr opts'" and "Validate opts = None"
    and "showIPsOnly opts"
    and "ToRESTConfig c = None" and "NewForConfig c = None"
    and "Pods_List c (if allNamespaces opts' then [] else namespace opts') (labelSelector opts')
           = Inr pods"
    and "\<forall>i<length pods. \<forall>j<length pods. i \<noteq> j \<longrightarrow>
           addresses (pods ! i) \<inter> addresses (pods ! j) = {}"
  shows "let items = sortPodIPsWithPods c (extractPodIPsWithPods pods) in
      fst (RunE c opts flagNs w) = None
    \<and> Out (snd (RunE c opts flagNs w)) =
        Out w @ concat (map (\<lambda>item. ip item @ ''\<newline>'') items)
    \<and> mset items = mset (extractPodIPsWithPods pods)
    \<and> sorted_wrt (\<lambda>a b. \<not> podIPLess b a) items
    \<and> distinct (map ip items)
    \<and> set (map ip items) = \<Union> (addresses ` set pods)"
proof -
  let ?items = "sortPodIPsWithPods c (extractPodIPsWithPods pods)"
  have s: "showIPsOnly opts'" using assms(2,4) by (simp add: Complete_flags)
  have run: "RunE c opts flagNs w = Run c opts' w" by (rule RunE_valid [OF assms(2,3)])
  note r = Run_ips_only [OF s assms(5,6,7), of w]
  have m: "mset ?items = mset (extractPodIPsWithPods pods)" by (rule sorter_mset [OF assms(1)])
  have o: "sorted_wrt (\<lambda>a b. \<not> podIPLess b a) ?items"
    using sorter_sorted [OF assms(1)] by (simp add: sorted_wrt_podIPLess)
  have mi: "mset (map ip ?items) = mset (map ip (extractPodIPsWithPods pods))"
    using m by (metis mset_map)
  have "distinct (map ip (extractPodIPsWithPods pods))"
    unfolding extractPodIPsWithPods_def by (rule loop_distinct [OF assms(8)])
  then have d: "distinct (map ip ?items)" using mi by (metis mset_eq_imp_distinct_iff)
  have e: "set (map ip ?items) = \<Union> (addresses ` set pods)"
    using mi extract_ips [of pods] by (metis set_mset_mset)
  show ?thesis unfolding Let_def run r using m o d e by simp
qed

theorem ips_only_output_witness:
  "sort_Slice_contract (example_collab [pod_a, pod_b])
   \<and> addresses pod_a \<inter> addresses pod_b = {}
   \<and> fst (RunE (example_collab [pod_a, pod_b]) (NewIPsOptions\<lparr>showIPsOnly := True\<rparr>) [] emptyWorld) = None
   \<and> Out (snd (RunE (example_collab [pod_a, pod_b]) (NewIPsOptions\<lparr>showIPsOnly := True\<rparr>) [] emptyWorld))
       = concat (map (\<lambda>item. ip item @ ''\<newline>'')
           (sortPodIPsWithPods (example_collab [pod_a, pod_b]) (extractPodIPsWithPods [pod_a, pod_b])))
   \<and> distinct (map ip (sortPodIPsWithPods (example_collab [pod_a, pod_b])
         (extractPodIPsWithPods [pod_a, pod_b])))"
proof -
  let ?c = "example_collab [pod_a, pod_b]"
  let ?o = "NewIPsOptions\<lparr>showIPsOnly := True\<rparr>"
  have c: "Complete ?o (Inr []) = Inr (?o\<lparr>namespace := ''default''\<rparr>)"
    by (simp add: Complete_def NewIPsOptions_def)
  have v: "Validate ?o = None" by (simp add: Validate_def NewIPsOptions_def tableFormat_def)
  have s: "showIPsOnly ?o" by simp
  have l: "Pods_List ?c (if allNamespaces (?o\<lparr>namespace := ''default''\<rparr>) then []
        else namespace (?o\<lparr>namespace := ''default''\<rparr>)) (labelSelector (?o\<lparr>namespace := ''default''\<rparr>))
      = Inr [pod_a, pod_b]"
    by (simp add: example_collab_def)
  have r: "ToRESTConfig ?c = None" "NewForConfig ?c = None" by (simp_all add: example_collab_def)
  have a: "addresses pod_a \<inter> addresses pod_b = {}"
    by (auto simp: addresses_def pod_a_def pod_b_def zeroPod_def)
  have dj: "\<forall>i<length [pod_a, pod_b]. \<forall>j<length [pod_a, pod_b]. i \<noteq> j \<longrightarrow>
           addresses ([pod_a, pod_b] ! i) \<inter> addresses ([pod_a, pod_b] ! j) = {}"
    using a by (auto simp: less_Suc_eq)
  show ?thesis
    using ips_only_output [OF contract_example_collab c v s r l dj, of emptyWorld]
      contract_example_collab [of "[pod_a, pod_b]"] a
    by (simp add: Let_def emptyWorld_def)
qed

text \<open>
  The claim that the printed lines are sorted by IP string fails: pod \<open>a\<close> has the greater
  IP and is printed first.
\<close>

theorem ips_only_order_counterexample:
  "showIPsOnly (NewIPsOptions\<lparr>showIPsOnly := True\<rparr>)
   \<and> addresses pod_a \<inter> addresses pod_b = {}
   \<and> RunE (example_collab [pod_a, pod_b]) (NewIPsOptions\<lparr>showIPsOnly := True\<rparr>) [] emptyWorld =
       (None, \<lparr>Out = ''10.0.0.2\<newline>10.0.0.1\<newline>'',
               queries = [(''default'', [])]\<rparr>)
   \<and> \<not> sorted [''10.0.0.2'', ''10.0.0.1'']"
proof -
  have "addresses pod_a \<inter> addresses pod_b = {}"
    by (auto simp: addresses_def pod_a_def pod_b_def zeroPod_def)
  then show ?thesis
    by (simp add: NewIPsOptions_def pod_a_def pod_b_def zeroPod_def emptyWorld_def
      RunE_def Complete_def Validate_def tableFormat_def Run_def getPods_def example_collab_def
      extractPodIPsWithPods_def extractPod_def sortPodIPsWithPods_def insertionSort_def
      podIPLess_def Fprint_def)
qed

section \<open>The status of a pod that is being deleted\<close>

text \<open>
  C4. For a pod whose \<open>DeletionTimestamp\<close> is set, \<open>FormatPodStatus\<close> is \<open>Unknown\<close> when
  \<open>Status.Reason\<close> is \<open>NodeLost\<close> and \<open>Terminating\<close> for every other reason, whatever the
  phase and whatever the init and main containers report.
\<close>

theorem deletion_overrides_status:
  "DeletionTimestamp p \<noteq> None \<Longrightarrow>
     FormatPodStatus p = (if Status_Reason p = ''NodeLost'' then ''Unknown'' else ''Terminating'')"
  by (simp add: FormatPodStatus_def handlePodDeletion_def Let_def split: prod.split)

theorem deletion_overrides_status_witness:
  "DeletionTimestamp pod_lost \<noteq> None \<and> FormatPodStatus pod_lost = ''Unknown'' \<and>
   DeletionTimestamp pod_deleted \<noteq> None \<and> FormatPodStatus pod_deleted = ''Terminating''"
  using deletion_overrides_status [of pod_lost] deletion_overrides_status [of pod_deleted]
  by (simp add: pod_lost_def pod_deleted_def zeroPod_def)

section \<open>Validation of the output format\<close>

text \<open>
  C5. \<open>Validate\<close> accepts exactly the formats \<open>table\<close>, \<open>wide\<close>, \<open>json\<close>, \<open>yaml\<close>,
  \<open>name\<close> and the empty string. With any other format the command returns the error
  "unsupported output format" and leaves the world as it was: no query has been sent
  to the cluster and nothing has been written. With an accepted format validation
  succeeds and the command goes on to \<open>Run\<close>.
\<close>

theorem unsupported_format_rejected:
  "Validate opts =
     (if outputFormat opts \<in> {''table'', ''wide'', ''json'', ''yaml'', ''name'', ''''} then None
      else Some ErrUnsupportedFormat)
   \<and> Error ErrUnsupportedFormat = ''unsupported output format''
   \<and> (outputFormat opts \<notin> {''table'', ''wide'', ''json'', ''yaml'', ''name'', ''''} \<longrightarrow>
        RunE c opts flagNs w = (Some ErrUnsupportedFormat, w)
        \<and> exitCode (fst (RunE c opts flagNs w)) = 1)
   \<and> (outputFormat opts \<in> {''table'', ''wide'', ''json'', ''yaml'', ''name'', ''''} \<longrightarrow>
        (\<exists>opts'. Complete opts (Inr flagNs) = Inr opts' \<and> RunE c opts flagNs w = Run c opts' w))"
proof -
  obtain opts' where c: "Complete opts (Inr flagNs) = Inr opts'"
    using Complete_total by blast
  have f: "outputFormat opts' = outputFormat opts" by (rule Complete_flags(4) [OF c])
  have v: "Validate opts =
     (if outputFormat opts \<in> {''table'', ''wide'', ''json'', ''yaml'', ''name'', ''''} then None
      else Some ErrUnsupportedFormat)"
    by (simp add: Validate_def tableFormat_def wideFormat_def jsonFormat_def yamlFormat_def
        nameFormat_def)
  have v': "Validate opts' = Validate opts" by (rule Validate_format [OF f])
  have bad: "RunE c opts flagNs w = (Some ErrUnsupportedFormat, w)"
    if "outputFormat opts \<notin> {''table'', ''wide'', ''json'', ''yaml'', ''name'', ''''}"
    using that c v v' by (simp add: RunE_def)
  have good: "RunE c opts flagNs w = Run c opts' w"
    if "outputFormat opts \<in> {''table'', ''wide'', ''json'', ''yaml'', ''name'', ''''}"
    using that v by (intro RunE_valid [OF c]) simp
  show ?thesis using v bad good c by (auto simp: exitCode_def)
qed

theorem unsupported_format_rejected_witness:
  "outputFormat (NewIPsOptions\<lparr>outputFormat := ''csv''\<rparr>) \<notin>
       {''table'', ''wide'', ''json'', ''yaml'', ''name'', ''''}
   \<and> RunE (example_collab [pod_a]) (NewIPsOptions\<lparr>outputFormat := ''csv''\<rparr>) [] emptyWorld =
       (Some ErrUnsupportedFormat, emptyWorld)
   \<and> outputFormat (NewIPsOptions\<lparr>outputFormat := ''yaml''\<rparr>) \<in>
       {''table'', ''wide'', ''json'', ''yaml'', ''name'', ''''}
   \<and> Validate (NewIPsOptions\<lparr>outputFormat := ''yaml''\<rparr>) = None"
  using unsupported_format_rejected [of "NewIPsOptions\<lparr>outputFormat := ''csv''\<rparr>"
      "example_collab [pod_a]" "[]" emptyWorld]
    unsupported_format_rejected [of "NewIPsOptions\<lparr>outputFormat := ''yaml''\<rparr>"
      "example_collab [pod_a]" "[]" emptyWorld]
  by simp

section \<open>The columns of the table\<close>

text \<open>
  C6. For every combination of the three flags, the headers and the cells of a row come
  in the order Namespace?, Name, IP, Status, Ready?, Restarts?, Node?, Age, Labels?: the
  namespace column is there exactly when \<open>showNamespace\<close> is set, the three columns
  Ready, Restarts and Node exactly when \<open>wide\<close> is set, the labels column exactly when
  \<open>showLabels\<close> is set. A row has as many cells as there are headers, and the table that
  \<open>generateTable\<close> builds has these headers and one such row per sorted pair.
\<close>

theorem table_columns_fixed_order:
  "map col_Name (makeTableHeaders showNs wd showLb) =
     (if showNs then [''NAMESPACE''] else []) @ [''NAME'', ''IP'', ''STATUS''] @
     (if wd then [''READY'', ''RESTARTS'', ''NODE''] else []) @ [''AGE''] @
     (if showLb then [''LABELS''] else [])
   \<and> makeTableRow c p a showNs wd showLb =
     (if showNs then [Namespace p] else []) @ [Name p, a, FormatPodStatus p] @
     (if wd then [FormatPodReady p, FormatRestarts p, GetNodeName p] else []) @
     [FormatPodAge c p] @ (if showLb then [FormatLabels (Labels p)] else [])
   \<and> length (makeTableRow c p a showNs wd showLb) = length (makeTableHeaders showNs wd showLb)
   \<and> ColumnDefinitions (generateTable c pods showNs wd showLb) =
       makeTableHeaders showNs wd showLb
   \<and> map Cells (Rows (generateTable c pods showNs wd showLb)) =
       map (\<lambda>item. makeTableRow c (pod item) (ip item) showNs wd showLb)
         (sortPodIPsWithPods c (extractPodIPsWithPods pods))"
  by (simp add: makeTableHeaders_def makeTableRow_def generateTable_def Let_def comp_def)

section \<open>The message for an empty result\<close>

text \<open>
  C7, as the code has it. With \<open>--all-namespaces\<close>, no selector, \<open>--show-ips-only\<close> not
  set and a query that returns an empty pod list, the program writes exactly
  "No pods found in all namespaces" and a newline, and returns success (exit code 0).
\<close>

theorem no_pods_found_message:
  assumes "allNamespaces opts" and "labelSelector opts = []" and "\<not> showIPsOnly opts"
    and "Validate opts = None"
    and "ToRESTConfig c = None" and "NewForConfig c = None" and "Pods_List c [] [] = Inr []"
  shows "RunE c opts flagNs w =
      (None, w\<lparr>Out := Out w @ ''No pods found in all namespaces\<newline>'',
               queries := queries w @ [([], [])]\<rparr>)
    \<and> exitCode (fst (RunE c opts flagNs w)) = 0"
proof -
  obtain opts' where c: "Complete opts (Inr flagNs) = Inr opts'"
    using Complete_total by blast
  note fl = Complete_flags [OF c]
  have "Run c opts' w =
    (None, w\<lparr>Out := Out w @ ''No pods found in all namespaces\<newline>'',
             queries := queries w @ [([], [])]\<rparr>)"
    using assms fl by (intro Run_no_pods) simp_all
  then show ?thesis by (simp add: RunE_valid [OF c assms(4)] exitCode_def)
qed

theorem no_pods_found_message_witness:
  "allNamespaces (NewIPsOptions\<lparr>allNamespaces := True\<rparr>)
   \<and> \<not> showIPsOnly (NewIPsOptions\<lparr>allNamespaces := True\<rparr>)
   \<and> Pods_List (example_collab []) [] [] = Inr []
   \<and> RunE (example_collab []) (NewIPsOptions\<lparr>allNamespaces := True\<rparr>) [] emptyWorld =
       (None, \<lparr>Out = ''No pods found in all namespaces\<newline>'', queries = [([], [])]\<rparr>)"
  using no_pods_found_message [of "NewIPsOptions\<lparr>allNamespaces := True\<rparr>" "example_collab []" "[]" emptyWorld]
  by (simp add: NewIPsOptions_def Validate_def tableFormat_def example_collab_def emptyWorld_def)

text \<open>
  Without the condition on \<open>--show-ips-only\<close> the claim fails: with that flag the same
  invocation writes nothing.
\<close>

theorem no_pods_found_ips_only_counterexample:
  "allNamespaces (NewIPsOptions\<lparr>allNamespaces := True, showIPsOnly := True\<rparr>)
   \<and> labelSelector (NewIPsOptions\<lparr>allNamespaces := True, showIPsOnly := True\<rparr>) = []
   \<and> Pods_List (example_collab []) [] [] = Inr []
   \<and> RunE (example_collab []) (NewIPsOptions\<lparr>allNamespaces := True, showIPsOnly := True\<rparr>) []
        emptyWorld = (None, \<lparr>Out = [], queries = [([], [])]\<rparr>)"
  by (simp add: NewIPsOptions_def emptyWorld_def
      RunE_def Complete_def Validate_def tableFormat_def Run_def getPods_def example_collab_def
      extractPodIPsWithPods_def sortPodIPsWithPods_def insertionSort_def)

section \<open>The extractor: order and skipped entries\<close>

text \<open>
  C8, as the code has it. The pairs of a pass are the pairs of the first pod, then those of
  the second, and so on. The pairs of one pod are its primary IP, when that is not empty,
  followed by secondary IPs in the order of the secondary list (a subsequence of it,
  without the empty string, the primary IP and repetitions). No pair has an empty IP, and
  every non-empty IP string of the pod list is the IP of some pair. The extractor is a
  total function: it has no error result. A pod with an empty primary IP is not skipped;
  only the pair for the primary IP is.
\<close>

theorem extractor_order_and_skips:
  "(\<exists>segs. extractPodIPsWithPods pods = concat segs \<and>
      list_all2 (\<lambda>p seg. \<exists>sec. seg = map (\<lambda>a. \<lparr>pod = p, ip = a\<rparr>) (primary p @ sec)
        \<and> subseq sec (Status_PodIPs p) \<and> [] \<notin> set sec \<and> distinct (primary p @ sec)) pods segs)
   \<and> [] \<notin> set (map ip (extractPodIPsWithPods pods))
   \<and> set (map ip (extractPodIPsWithPods pods)) = \<Union> (addresses ` set pods)"
proof -
  have "[] \<notin> \<Union> (addresses ` set pods)" by (simp add: addresses_def)
  then show ?thesis
    using loop_shape [of "\<lambda>_. False" pods] extract_ips [of pods]
    by (simp add: extractPodIPsWithPods_def del: set_map)
qed

text \<open>
  The claim that pods with an empty primary IP are skipped fails: such a pod still gets a
  pair for each secondary IP.
\<close>

theorem extractor_skips_pod_counterexample:
  "Status_PodIP pod_noprimary = [] \<and>
   extractPodIPsWithPods [pod_noprimary] = [\<lparr>pod = pod_noprimary, ip = ''fd00::7''\<rparr>]"
  by (simp add: extractPodIPsWithPods_def extractPod_def pod_noprimary_def zeroPod_def)

section \<open>The namespace in the table and in the name output\<close>

text \<open>
  C9. When the run reaches the table (no \<open>--show-ips-only\<close>, at least one pair), the table
  handed to the printer has a \<open>NAMESPACE\<close> column exactly when \<open>--all-namespaces\<close> is
  set; with the formats \<open>table\<close>, \<open>wide\<close> and the empty one, what is written is what the
  tabular printer writes for that table. With the format \<open>name\<close> the program writes one
  line per sorted pair: \<open>namespace/name\<close> when \<open>--all-namespaces\<close> is set and the bare pod
  name otherwise, also when a namespace was given with \<open>--namespace\<close>.
\<close>

theorem namespace_shown_iff_all_namespaces:
  assumes "sort_Slice_contract c"
    and "Complete opts (Inr flagNs) = Inr opts'" and "Validate opts = None"
    and "\<not> showIPsOnly opts"
    and "ToRESTConfig c = None" and "NewForConfig c = None"
    and "Pods_List c (if allNamespaces opts' then [] else namespace opts') (labelSelector opts')
           = Inr pods"
    and "extractPodIPsWithPods pods \<noteq> []"
  shows "let table = generateTable c pods (allNamespaces opts) (outputFormat opts = ''wide'')
                       (showLabels opts)
     in (''NAMESPACE'' \<in> set (map col_Name (ColumnDefinitions table))) = allNamespaces opts
      \<and> (outputFormat opts \<in> {''table'', ''wide'', ''''} \<longrightarrow>
           Out (snd (RunE c opts flagNs w)) =
             snd (TablePrinter_PrintObj c (noHeaders opts) (TableObj table) (Out w)))
      \<and> (outputFormat opts = ''name'' \<longrightarrow>
           fst (RunE c opts flagNs w) = None \<and>
           Out (snd (RunE c opts flagNs w)) = Out w @ concat (map (\<lambda>item.
               (if allNamespaces opts then Namespace (pod item) @ ''/'' else [])
                 @ Name (pod item) @ ''\<newline>'')
             (sortPodIPsWithPods c (extractPodIPsWithPods pods))))"
proof -
  note fl = Complete_flags [OF assms(2)]
  have s: "\<not> showIPsOnly opts'" using assms(4) fl by simp
  note r = Run_table [OF assms(1) s assms(5-8), of w]
  have run: "RunE c opts flagNs w = Run c opts' w" by (rule RunE_valid [OF assms(2,3)])
  let ?T = "generateTable c pods (allNamespaces opts) (outputFormat opts = ''wide'') (showLabels opts)"
  have h: "(''NAMESPACE'' \<in> set (map col_Name (ColumnDefinitions ?T))) = allNamespaces opts"
    by (simp add: generateTable_def Let_def headers_namespace del: set_map)
  have t: "Out (snd (RunE c opts flagNs w)) =
             snd (TablePrinter_PrintObj c (noHeaders opts) (TableObj ?T) (Out w))"
    if "outputFormat opts \<in> {''table'', ''wide'', ''''}"
  proof -
    have "createPrinter (outputFormat opts) (noHeaders opts) (allNamespaces opts) =
        Inr (TablePrinter (noHeaders opts))"
      using that by (intro createPrinter_table) simp
    then show ?thesis unfolding run r
      by (simp add: fl Let_def wideFormat_def split: prod.split option.split)
  qed
  have n: "fst (RunE c opts flagNs w) = None \<and>
           Out (snd (RunE c opts flagNs w)) = Out w @ concat (map (\<lambda>item.
               (if allNamespaces opts then Namespace (pod item) @ ''/'' else [])
                 @ Name (pod item) @ ''\<newline>'')
             (sortPodIPsWithPods c (extractPodIPsWithPods pods)))"
    if "outputFormat opts = ''name''"
    unfolding run r
    by (simp add: that fl createPrinter_name Let_def generateTable_def namePrintRows_eq)
  show ?thesis unfolding Let_def using h t n by blast
qed


theorem namespace_shown_iff_all_namespaces_witness:
  "sort_Slice_contract (example_collab [pod_b, pod_a])
   \<and> extractPodIPsWithPods [pod_b, pod_a] \<noteq> []
   \<and> \<not> allNamespaces (NewIPsOptions\<lparr>outputFormat := ''name''\<rparr>)
   \<and> Out (snd (RunE (example_collab [pod_b, pod_a]) (NewIPsOptions\<lparr>outputFormat := ''name''\<rparr>)
         ''default'' emptyWorld)) = ''a\<newline>b\<newline>''
   \<and> allNamespaces (NewIPsOptions\<lparr>outputFormat := ''name'', allNamespaces := True\<rparr>)
   \<and> Out (snd (RunE (example_collab [pod_b, pod_a])
         (NewIPsOptions\<lparr>outputFormat := ''name'', allNamespaces := True\<rparr>) [] emptyWorld))
       = ''default/a\<newline>default/b\<newline>''"
proof -
  let ?c = "example_collab [pod_b, pod_a]"
  let ?o = "NewIPsOptions\<lparr>outputFormat := ''name''\<rparr>"
  let ?oA = "NewIPsOptions\<lparr>outputFormat := ''name'', allNamespaces := True\<rparr>"
  have c: "Complete ?o (Inr ''default'') = Inr (?o\<lparr>namespace := ''default''\<rparr>)"
    and cA: "Complete ?oA (Inr []) = Inr ?oA"
    by (simp_all add: Complete_def NewIPsOptions_def)
  have v: "Validate ?o = None" "Validate ?oA = None"
    by (simp_all add: Validate_def NewIPsOptions_def nameFormat_def)
  have s: "\<not> showIPsOnly ?o" "\<not> showIPsOnly ?oA" by (simp_all add: NewIPsOptions_def)
  have r: "ToRESTConfig ?c = None" "NewForConfig ?c = None" by (simp_all add: example_collab_def)
  have l: "Pods_List ?c ns sel = Inr [pod_b, pod_a]" for ns sel by (simp add: example_collab_def)
  have e: "extractPodIPsWithPods [pod_b, pod_a] =
      [\<lparr>pod = pod_b, ip = ''10.0.0.1''\<rparr>, \<lparr>pod = pod_a, ip = ''10.0.0.2''\<rparr>]"
    by (simp add: extractPodIPsWithPods_def extractPod_def pod_a_def pod_b_def zeroPod_def)
  have srt: "sortPodIPsWithPods ?c
      [\<lparr>pod = pod_b, ip = ''10.0.0.1''\<rparr>, \<lparr>pod = pod_a, ip = ''10.0.0.2''\<rparr>] =
      [\<lparr>pod = pod_a, ip = ''10.0.0.2''\<rparr>, \<lparr>pod = pod_b, ip = ''10.0.0.1''\<rparr>]"
    by (simp add: sortPodIPsWithPods_def example_collab_def insertionSort_def podIPLess_def
        pod_a_def pod_b_def zeroPod_def)
  have ne: "extractPodIPsWithPods [pod_b, pod_a] \<noteq> []" by (simp add: e)
  have n: "Name pod_a = ''a''" "Name pod_b = ''b''" "Namespace pod_a = ''default''"
    "Namespace pod_b = ''default''"
    by (simp_all add: pod_a_def pod_b_def zeroPod_def)
  show ?thesis
    using namespace_shown_iff_all_namespaces [OF contract_example_collab c v(1) s(1) r l ne,
        of emptyWorld]
      namespace_shown_iff_all_namespaces [OF contract_example_collab cA v(2) s(2) r l ne,
        of emptyWorld]
      contract_example_collab [of "[pod_b, pod_a]"] ne
    by (simp add: Let_def e srt n emptyWorld_def NewIPsOptions_def)
qed

section \<open>\<open>--show-ips-only\<close> on an empty result\<close>

text \<open>
  C10. With \<open>--show-ips-only\<close> the IP-only printer runs before the check for an empty
  result: when the query returns an empty pod list the program writes nothing at all (no
  "No pods found" message) and returns success.
\<close>

theorem ips_only_empty_prints_nothing:
  assumes "sort_Slice_contract c"
    and "showIPsOnly opts" and "Validate opts = None"
    and "Complete opts (Inr flagNs) = Inr opts'"
    and "ToRESTConfig c = None" and "NewForConfig c = None"
    and "Pods_List c (if allNamespaces opts' then [] else namespace opts') (labelSelector opts')
           = Inr []"
  shows "fst (RunE c opts flagNs w) = None
    \<and> Out (snd (RunE c opts flagNs w)) = Out w
    \<and> exitCode (fst (RunE c opts flagNs w)) = 0"
proof -
  have s: "showIPsOnly opts'" using assms(2,4) by (simp add: Complete_flags)
  have e: "sortPodIPsWithPods c (extractPodIPsWithPods []) = []"
    using sorter_Nil [OF assms(1)] by (simp add: extractPodIPsWithPods_def)
  show ?thesis
    unfolding RunE_valid [OF assms(4,3)] Run_ips_only [OF s assms(5,6,7)]
    by (simp add: e exitCode_def)
qed

theorem ips_only_empty_prints_nothing_witness:
  "sort_Slice_contract (example_collab [])
   \<and> showIPsOnly (NewIPsOptions\<lparr>showIPsOnly := True\<rparr>)
   \<and> fst (RunE (example_collab []) (NewIPsOptions\<lparr>showIPsOnly := True\<rparr>) [] emptyWorld) = None
   \<and> Out (snd (RunE (example_collab []) (NewIPsOptions\<lparr>showIPsOnly := True\<rparr>) [] emptyWorld)) = []"
proof -
  let ?o = "NewIPsOptions\<lparr>showIPsOnly := True\<rparr>"
  have c: "Complete ?o (Inr []) = Inr (?o\<lparr>namespace := ''default''\<rparr>)"
    by (simp add: Complete_def NewIPsOptions_def)
  have v: "Validate ?o = None" by (simp add: Validate_def NewIPsOptions_def tableFormat_def)
  show ?thesis
    using ips_only_empty_prints_nothing [OF contract_example_collab _ v c, of "[]" emptyWorld]
      contract_example_collab [of "[]"]
    by (simp add: example_collab_def emptyWorld_def)
qed

end
